theory Spec2Isabelle
  imports Complex_Main
begin

section \<open>ArtraCFD: shared constants and conventions\<close>

text \<open>
  The C type \<open>Real\<close> is read as the mathematical reals: every statement below is
  about exact real arithmetic, not about IEEE rounding.  C \<open>int\<close> values are read as
  unbounded integers.  The only integer arithmetic below is index arithmetic
  on the grid and the product of six node flags; the flags of a classified
  grid are -1, 0, 1 or 2, so that product is at most 64 in magnitude.

  Division is HOL's total division; where a statement depends on the value
  of a quotient, its hypotheses or its concrete inputs make the divisor
  nonzero.

  An output array that a function assigns in every component is returned as a
  fresh list.  An output array that a function assigns only in part, or that is
  also read, is passed in and returned updated.
\<close>

type_synonym Real = real

definition DIMU :: nat where
  \<comment> \<open>Modelled from the spec: the macro \<open>DIMU\<close> of commons.h, a header that is not
      among the available sources; it is the number of conservative components
      \<open>(rho, rho u, rho v, rho w, rho E)\<close>.\<close>
  "DIMU = 5"

definition DIMS :: nat where
  \<comment> \<open>Modelled from the spec: the macro \<open>DIMS\<close> of commons.h, the three space
      directions \<open>s = 0, 1, 2\<close>.\<close>
  "DIMS = 3"

definition X :: nat where
  \<comment> \<open>Modelled from the spec: the direction tags of commons.h, \<open>{x, y, z} = {0, 1, 2}\<close>.\<close>
  "X = 0"

definition Y :: nat where
  \<comment> \<open>Modelled from the spec: as \<open>X\<close>.\<close>
  "Y = 1"

definition Z :: nat where
  \<comment> \<open>Modelled from the spec: as \<open>X\<close>.\<close>
  "Z = 2"

section \<open>cfd_commons.c: thermodynamic conversions\<close>

definition PrimitiveByConservative :: "Real \<Rightarrow> Real \<Rightarrow> Real list \<Rightarrow> Real list" where
  "PrimitiveByConservative gamma gasR U =
     (let Uo0 = U ! 0;
          Uo1 = U ! 1 / U ! 0;
          Uo2 = U ! 2 / U ! 0;
          Uo3 = U ! 3 / U ! 0;
          Uo4 = (U ! 4 - 0.5 * (U ! 1 * U ! 1 + U ! 2 * U ! 2 + U ! 3 * U ! 3) / U ! 0) * (gamma - 1.0);
          Uo5 = Uo4 / (Uo0 * gasR)
      in [Uo0, Uo1, Uo2, Uo3, Uo4, Uo5])"

definition ComputePressure :: "Real \<Rightarrow> Real list \<Rightarrow> Real" where
  "ComputePressure gamma U =
     (U ! 4 - 0.5 * (U ! 1 * U ! 1 + U ! 2 * U ! 2 + U ! 3 * U ! 3) / U ! 0) * (gamma - 1.0)"

definition ComputeTemperature :: "Real \<Rightarrow> Real list \<Rightarrow> Real" where
  "ComputeTemperature cv U =
     (U ! 4 - 0.5 * (U ! 1 * U ! 1 + U ! 2 * U ! 2 + U ! 3 * U ! 3) / U ! 0) / (U ! 0 * cv)"

definition ConservativeByPrimitive :: "Real \<Rightarrow> Real list \<Rightarrow> Real list" where
  "ConservativeByPrimitive gamma Uo =
     [Uo ! 0,
      Uo ! 0 * Uo ! 1,
      Uo ! 0 * Uo ! 2,
      Uo ! 0 * Uo ! 3,
      0.5 * Uo ! 0 * (Uo ! 1 * Uo ! 1 + Uo ! 2 * Uo ! 2 + Uo ! 3 * Uo ! 3) + Uo ! 4 / (gamma - 1.0)]"

section \<open>cfd_commons.c: averaging and eigenvalue splitting\<close>

text \<open>
  \<open>SymmetricAverage\<close> assigns \<open>Uo[1]\<close> to \<open>Uo[5]\<close> in this order and reads back the
  components it has just written; \<open>Uo\<close> is the caller's array.
\<close>

definition SymmetricAverage :: "int \<Rightarrow> Real \<Rightarrow> Real list \<Rightarrow> Real list \<Rightarrow> Real list \<Rightarrow> Real list" where
  "SymmetricAverage averager gamma UL UR Uo =
     (let rhoL = UL ! 0;
          uL = UL ! 1 / rhoL;
          vL = UL ! 2 / rhoL;
          wL = UL ! 3 / rhoL;
          hTL = (UL ! 4 / rhoL) * gamma - 0.5 * (uL * uL + vL * vL + wL * wL) * (gamma - 1.0);
          rhoR = UR ! 0;
          uR = UR ! 1 / rhoR;
          vR = UR ! 2 / rhoR;
          wR = UR ! 3 / rhoR;
          hTR = (UR ! 4 / rhoR) * gamma - 0.5 * (uR * uR + vR * vR + wR * wR) * (gamma - 1.0);
          D = (if 1 = averager then sqrt (rhoR / rhoL) else 1.0);
          Uo = Uo[1 := (uL + D * uR) / (1.0 + D)];
          Uo = Uo[2 := (vL + D * vR) / (1.0 + D)];
          Uo = Uo[3 := (wL + D * wR) / (1.0 + D)];
          Uo = Uo[4 := (hTL + D * hTR) / (1.0 + D)];
          Uo = Uo[5 := sqrt ((gamma - 1.0) *
                 (Uo ! 4 - 0.5 * (Uo ! 1 * Uo ! 1 + Uo ! 2 * Uo ! 2 + Uo ! 3 * Uo ! 3)))]
      in Uo)"

definition Eigenvalue :: "nat \<Rightarrow> Real list \<Rightarrow> Real list" where
  "Eigenvalue s Uo =
     [Uo ! (s + 1) - Uo ! 5, Uo ! (s + 1), Uo ! (s + 1), Uo ! (s + 1), Uo ! (s + 1) + Uo ! 5]"

text \<open>
  The two splitters run one loop over \<open>row = 0 .. DIMU - 1\<close> that assigns
  \<open>LambdaP[row]\<close> and \<open>LambdaN[row]\<close>; the pair of results is \<open>(LambdaP, LambdaN)\<close>.
\<close>

definition LocalLaxFriedrichs :: "Real list \<Rightarrow> Real list \<times> Real list" where
  "LocalLaxFriedrichs Lambda =
     (let lambdaStar = \<bar>Lambda ! 2\<bar> + Lambda ! 4 - Lambda ! 2
      in (map (\<lambda>row. 0.5 * (Lambda ! row + lambdaStar)) [0..<DIMU],
          map (\<lambda>row. 0.5 * (Lambda ! row - lambdaStar)) [0..<DIMU]))"

definition StegerWarming :: "Real list \<Rightarrow> Real list \<times> Real list" where
  "StegerWarming Lambda =
     (let epsilon = 0.001
      in (map (\<lambda>row. 0.5 * (Lambda ! row + sqrt (Lambda ! row * Lambda ! row + epsilon * epsilon))) [0..<DIMU],
          map (\<lambda>row. 0.5 * (Lambda ! row - sqrt (Lambda ! row * Lambda ! row + epsilon * epsilon))) [0..<DIMU]))"

definition SplitEigenvalue :: "(Real list \<Rightarrow> Real list \<times> Real list) list" where
  "SplitEigenvalue = [LocalLaxFriedrichs, StegerWarming]"

definition EigenvalueSplitting :: "nat \<Rightarrow> Real list \<Rightarrow> Real list \<times> Real list" where
  "EigenvalueSplitting splitter Lambda = (SplitEigenvalue ! splitter) Lambda"

section \<open>cfd_commons.c: eigenvector matrices\<close>

text \<open>
  A \<open>DIMU \<times> DIMU\<close> matrix is the list of its rows.  Each function below assigns
  all twenty-five entries; the entries are written as in the source, row by row.
\<close>

type_synonym Matrix = "Real list list"

definition EigenvectorLZ :: "Real \<Rightarrow> Real \<Rightarrow> Real \<Rightarrow> Real \<Rightarrow> Real \<Rightarrow> Real \<Rightarrow> Real \<Rightarrow> Matrix" where
  "EigenvectorLZ u v w c q b d =
     [[b * q + d * w,   - b * u,             - b * v,             - b * w - d,     b],
      [- 2 * b * q * u, 2 * b * u * u + 1,   2 * b * v * u,       2 * b * w * u,   - 2 * b * u],
      [- 2 * b * q * v, 2 * b * v * u,       2 * b * v * v + 1,   2 * b * w * v,   - 2 * b * v],
      [- 2 * b * q + 1, 2 * b * u,           2 * b * v,           2 * b * w,       - 2 * b],
      [b * q - d * w,   - b * u,             - b * v,             - b * w + d,     b]]"

definition EigenvectorLY :: "Real \<Rightarrow> Real \<Rightarrow> Real \<Rightarrow> Real \<Rightarrow> Real \<Rightarrow> Real \<Rightarrow> Real \<Rightarrow> Matrix" where
  "EigenvectorLY u v w c q b d =
     [[b * q + d * v,   - b * u,             - b * v - d,         - b * w,             b],
      [- 2 * b * q * u, 2 * b * u * u + 1,   2 * b * v * u,       2 * b * w * u,       - 2 * b * u],
      [- 2 * b * q + 1, 2 * b * u,           2 * b * v,           2 * b * w,           - 2 * b],
      [- 2 * b * q * w, 2 * b * w * u,       2 * b * w * v,       2 * b * w * w + 1,   - 2 * b * w],
      [b * q - d * v,   - b * u,             - b * v + d,         - b * w,             b]]"

definition EigenvectorLX :: "Real \<Rightarrow> Real \<Rightarrow> Real \<Rightarrow> Real \<Rightarrow> Real \<Rightarrow> Real \<Rightarrow> Real \<Rightarrow> Matrix" where
  "EigenvectorLX u v w c q b d =
     [[b * q + d * u,   - b * u - d,         - b * v,             - b * w,             b],
      [- 2 * b * q + 1, 2 * b * u,           2 * b * v,           2 * b * w,           - 2 * b],
      [- 2 * b * q * v, 2 * b * v * u,       2 * b * v * v + 1,   2 * b * w * v,       - 2 * b * v],
      [- 2 * b * q * w, 2 * b * w * u,       2 * b * w * v,       2 * b * w * w + 1,   - 2 * b * w],
      [b * q - d * u,   - b * u + d,         - b * v,             - b * w,             b]]"

definition ComputeEigenvectorL ::
    "(Real \<Rightarrow> Real \<Rightarrow> Real \<Rightarrow> Real \<Rightarrow> Real \<Rightarrow> Real \<Rightarrow> Real \<Rightarrow> Matrix) list" where
  "ComputeEigenvectorL = [EigenvectorLX, EigenvectorLY, EigenvectorLZ]"

definition EigenvectorL :: "nat \<Rightarrow> Real \<Rightarrow> Real list \<Rightarrow> Matrix" where
  "EigenvectorL s gamma Uo =
     (let u = Uo ! 1;
          v = Uo ! 2;
          w = Uo ! 3;
          c = Uo ! 5;
          q = 0.5 * (u * u + v * v + w * w);
          b = (gamma - 1.0) / (2.0 * c * c);
          d = (1.0 / (2.0 * c))
      in (ComputeEigenvectorL ! s) u v w c q b d)"

definition EigenvectorRZ :: "Real \<Rightarrow> Real \<Rightarrow> Real \<Rightarrow> Real \<Rightarrow> Real \<Rightarrow> Real \<Rightarrow> Matrix" where
  "EigenvectorRZ u v w hT c q =
     [[1,          0, 0, 1,         1],
      [u,          1, 0, 0,         u],
      [v,          0, 1, 0,         v],
      [w - c,      0, 0, w,         w + c],
      [hT - w * c, u, v, w * w - q, hT + w * c]]"

definition EigenvectorRY :: "Real \<Rightarrow> Real \<Rightarrow> Real \<Rightarrow> Real \<Rightarrow> Real \<Rightarrow> Real \<Rightarrow> Matrix" where
  "EigenvectorRY u v w hT c q =
     [[1,          0, 1,         0, 1],
      [u,          1, 0,         0, u],
      [v - c,      0, v,         0, v + c],
      [w,          0, 0,         1, w],
      [hT - v * c, u, v * v - q, w, hT + v * c]]"

definition EigenvectorRX :: "Real \<Rightarrow> Real \<Rightarrow> Real \<Rightarrow> Real \<Rightarrow> Real \<Rightarrow> Real \<Rightarrow> Matrix" where
  "EigenvectorRX u v w hT c q =
     [[1,          1,         0, 0, 1],
      [u - c,      u,         0, 0, u + c],
      [v,          0,         1, 0, v],
      [w,          0,         0, 1, w],
      [hT - u * c, u * u - q, v, w, hT + u * c]]"

definition ComputeEigenvectorR ::
    "(Real \<Rightarrow> Real \<Rightarrow> Real \<Rightarrow> Real \<Rightarrow> Real \<Rightarrow> Real \<Rightarrow> Matrix) list" where
  "ComputeEigenvectorR = [EigenvectorRX, EigenvectorRY, EigenvectorRZ]"

definition EigenvectorR :: "nat \<Rightarrow> Real list \<Rightarrow> Matrix" where
  "EigenvectorR s Uo =
     (let u = Uo ! 1;
          v = Uo ! 2;
          w = Uo ! 3;
          hT = Uo ! 4;
          c = Uo ! 5;
          q = 0.5 * (u * u + v * v + w * w)
      in (ComputeEigenvectorR ! s) u v w hT c q)"

text \<open>
  The matrix product and the identity matrix, for stating that \<open>L\<close> and \<open>R\<close> are
  mutually inverse.  These two are mathematical notions, not code of the
  repository.
\<close>

definition MatrixProduct :: "Matrix \<Rightarrow> Matrix \<Rightarrow> Matrix" where
  "MatrixProduct A B =
     map (\<lambda>row. map (\<lambda>col. \<Sum>m \<leftarrow> [0..<DIMU]. A ! row ! m * B ! m ! col) [0..<DIMU]) [0..<DIMU]"

definition IdentityMatrix :: Matrix where
  "IdentityMatrix = map (\<lambda>row. map (\<lambda>col. if row = col then 1 else 0) [0..<DIMU]) [0..<DIMU]"

section \<open>cfd_commons.c: index math and vector algebra\<close>

definition IndexNode :: "int \<Rightarrow> int \<Rightarrow> int \<Rightarrow> int \<Rightarrow> int \<Rightarrow> int" where
  "IndexNode k j i jMax iMax = (k * jMax + j) * iMax + i"

definition PointSpace :: "int \<Rightarrow> Real \<Rightarrow> Real \<Rightarrow> int \<Rightarrow> Real" where
  "PointSpace n sMin ds ng = sMin + of_int (n - ng) * ds"

definition Dot :: "Real list \<Rightarrow> Real list \<Rightarrow> Real" where
  "Dot V1 V2 = V1 ! X * V2 ! X + V1 ! Y * V2 ! Y + V1 ! Z * V2 ! Z"

definition Norm :: "Real list \<Rightarrow> Real" where
  "Norm V = sqrt (Dot V V)"

text \<open>
  \<open>Cross (V1, V2, V)\<close> stores \<open>V1 \<times> V2\<close> in \<open>V\<close>; the three arrays are
  \<open>restrict\<close>-qualified, so the reads of \<open>V1\<close> and \<open>V2\<close> do not see the writes.
\<close>

definition Cross :: "Real list \<Rightarrow> Real list \<Rightarrow> Real list \<Rightarrow> Real list" where
  "Cross V1 V2 V =
     (let V = V[X := V1 ! Y * V2 ! Z - V1 ! Z * V2 ! Y];
          V = V[Y := V1 ! Z * V2 ! X - V1 ! X * V2 ! Z];
          V = V[Z := V1 ! X * V2 ! Y - V1 ! Y * V2 ! X]
      in V)"

definition Normalize :: "nat \<Rightarrow> Real \<Rightarrow> Real list \<Rightarrow> Real list" where
  "Normalize dimV normalizer V = fold (\<lambda>n V. V[n := V ! n / normalizer]) [0..<dimV] V"

text \<open>
  \<open>OrthogonalSpace (N, Ta, Tb)\<close>: \<open>N\<close> is read only, \<open>Ta\<close> and \<open>Tb\<close> are the
  caller's arrays; the result is the pair of their final contents.  The last
  statement of the source is \<open>Cross(Tb, N, Ta)\<close>.
\<close>

definition OrthogonalSpace :: "Real list \<Rightarrow> Real list \<Rightarrow> Real list \<Rightarrow> Real list \<times> Real list" where
  "OrthogonalSpace N Ta Tb =
     (let mark = Z;
          mark = (if \<bar>N ! mark\<bar> > \<bar>N ! Y\<bar> then Y else mark);
          mark = (if \<bar>N ! mark\<bar> > \<bar>N ! X\<bar> then X else mark);
          Ta = (if X = mark then Ta[X := 0, Y := - N ! Z, Z := N ! Y]
                else if Y = mark then Ta[X := - N ! Z, Y := 0, Z := N ! X]
                else Ta[X := - N ! Y, Y := N ! X, Z := 0]);
          Ta = Normalize DIMS (Norm Ta) Ta;
          Ta = Cross Tb N Ta
      in (Ta, Tb))"

section \<open>cfd_commons.c: viscous flux at an x-face\<close>

text \<open>
  \<open>Model\<close> and \<open>Node\<close> are declared in commons.h, which is not among the
  available sources; the records hold the members read here.  \<open>node\<close> is the node array, addressed by the flat index;
  \<open>U (node idx) ! tn\<close> is the conservative vector of time level \<open>tn\<close>.
  C's \<open>pow(T, 1.5)\<close> is \<open>T powr 1.5\<close>, which agrees with it for \<open>T \<ge> 0\<close>.
\<close>

record Model =
  refMu :: Real
  refT :: Real
  gamma :: Real
  cv :: Real

record Node =
  U :: "Real list list"

definition Viscosity :: "Real \<Rightarrow> Real" where
  "Viscosity T = 1.458 / 10 ^ 6 * (T powr 1.5) / (T + 110.4)"

definition PrandtlNumber :: Real where
  "PrandtlNumber = 0.71"

definition NumericalDiffusiveFluxX ::
    "nat \<Rightarrow> int \<Rightarrow> int \<Rightarrow> int \<Rightarrow> int list \<Rightarrow> Real list \<Rightarrow> (int \<Rightarrow> Node) \<Rightarrow> Model \<Rightarrow> Real list" where
  "NumericalDiffusiveFluxX tn k j i n dd node model =
     (let idx = IndexNode k j i (n ! Y) (n ! X);
          idxS = IndexNode k (j - 1) i (n ! Y) (n ! X);
          idxN = IndexNode k (j + 1) i (n ! Y) (n ! X);
          idxF = IndexNode (k - 1) j i (n ! Y) (n ! X);
          idxB = IndexNode (k + 1) j i (n ! Y) (n ! X);

          idxE = IndexNode k j (i + 1) (n ! Y) (n ! X);
          idxSE = IndexNode k (j - 1) (i + 1) (n ! Y) (n ! X);
          idxNE = IndexNode k (j + 1) (i + 1) (n ! Y) (n ! X);
          idxFE = IndexNode (k - 1) j (i + 1) (n ! Y) (n ! X);
          idxBE = IndexNode (k + 1) j (i + 1) (n ! Y) (n ! X);

          Uc = U (node idx) ! tn;
          u = Uc ! 1 / Uc ! 0;
          v = Uc ! 2 / Uc ! 0;
          w = Uc ! 3 / Uc ! 0;
          T = ComputeTemperature (cv model) Uc;

          Uc = U (node idxS) ! tn;
          uS = Uc ! 1 / Uc ! 0;
          vS = Uc ! 2 / Uc ! 0;

          Uc = U (node idxN) ! tn;
          uN = Uc ! 1 / Uc ! 0;
          vN = Uc ! 2 / Uc ! 0;

          Uc = U (node idxF) ! tn;
          uF = Uc ! 1 / Uc ! 0;
          wF = Uc ! 3 / Uc ! 0;

          Uc = U (node idxB) ! tn;
          uB = Uc ! 1 / Uc ! 0;
          wB = Uc ! 3 / Uc ! 0;

          Uc = U (node idxE) ! tn;
          uE = Uc ! 1 / Uc ! 0;
          vE = Uc ! 2 / Uc ! 0;
          wE = Uc ! 3 / Uc ! 0;
          TE = ComputeTemperature (cv model) Uc;

          Uc = U (node idxSE) ! tn;
          uSE = Uc ! 1 / Uc ! 0;
          vSE = Uc ! 2 / Uc ! 0;

          Uc = U (node idxNE) ! tn;
          uNE = Uc ! 1 / Uc ! 0;
          vNE = Uc ! 2 / Uc ! 0;

          Uc = U (node idxFE) ! tn;
          uFE = Uc ! 1 / Uc ! 0;
          wFE = Uc ! 3 / Uc ! 0;

          Uc = U (node idxBE) ! tn;
          uBE = Uc ! 1 / Uc ! 0;
          wBE = Uc ! 3 / Uc ! 0;

          du_dx = (uE - u) * dd ! X;
          dv_dy = 0.25 * (vN + vNE - vS - vSE) * dd ! Y;
          dw_dz = 0.25 * (wB + wBE - wF - wFE) * dd ! Z;
          du_dy = 0.25 * (uN + uNE - uS - uSE) * dd ! Y;
          dv_dx = (vE - v) * dd ! X;
          du_dz = 0.25 * (uB + uBE - uF - uFE) * dd ! Z;
          dw_dx = (wE - w) * dd ! X;
          dT_dx = (TE - T) * dd ! X;

          uhat = 0.5 * (u + uE);
          vhat = 0.5 * (v + vE);
          what = 0.5 * (w + wE);
          That = 0.5 * (T + TE);
          mu = refMu model * Viscosity (That * refT model);
          heatK = gamma model * cv model * mu / PrandtlNumber;
          divV = du_dx + dv_dy + dw_dz;

          Fvhat0 = 0;
          Fvhat1 = mu * (2.0 * du_dx - (2.0 / 3.0) * divV);
          Fvhat2 = mu * (du_dy + dv_dx);
          Fvhat3 = mu * (du_dz + dw_dx);
          Fvhat4 = heatK * dT_dx + Fvhat1 * uhat + Fvhat2 * vhat + Fvhat3 * what
      in [Fvhat0, Fvhat1, Fvhat2, Fvhat3, Fvhat4])"

text \<open>
  The words of the specification for the x-face stencil, written without the
  functions of the source: the flat index \<open>(k * jMax + j) * iMax + i\<close> with
  \<open>jMax = n[Y]\<close> and \<open>iMax = n[X]\<close>, the primitive values at a node
  (\<open>u, v, w = rho u / rho, ...\<close> and \<open>T = (rho E / rho - (u^2 + v^2 + w^2) / 2) / cv\<close>),
  the two-point difference normal to the face, the four-point averages across
  the face, and the face value.  \<open>N, S\<close> are the neighbours at \<open>j + 1, j - 1\<close>;
  \<open>B, F\<close> those at \<open>k + 1, k - 1\<close>; \<open>E\<close> the one at \<open>i + 1\<close>.
\<close>

definition NodeState :: "nat \<Rightarrow> int list \<Rightarrow> (int \<Rightarrow> Node) \<Rightarrow> int \<Rightarrow> int \<Rightarrow> int \<Rightarrow> Real list" where
  "NodeState tn n node k j i = U (node ((k * n ! Y + j) * n ! X + i)) ! tn"

definition NodeVelocity :: "nat \<Rightarrow> nat \<Rightarrow> int list \<Rightarrow> (int \<Rightarrow> Node) \<Rightarrow> int \<Rightarrow> int \<Rightarrow> int \<Rightarrow> Real" where
  "NodeVelocity m tn n node k j i = NodeState tn n node k j i ! m / NodeState tn n node k j i ! 0"

definition NodeTemperature :: "Model \<Rightarrow> nat \<Rightarrow> int list \<Rightarrow> (int \<Rightarrow> Node) \<Rightarrow> int \<Rightarrow> int \<Rightarrow> int \<Rightarrow> Real" where
  "NodeTemperature model tn n node k j i =
     (let rho = NodeState tn n node k j i ! 0;
          rhoE = NodeState tn n node k j i ! 4;
          u = NodeVelocity 1 tn n node k j i;
          v = NodeVelocity 2 tn n node k j i;
          w = NodeVelocity 3 tn n node k j i
      in (rhoE / rho - 0.5 * (u * u + v * v + w * w)) / cv model)"

definition NormalDifferenceX :: "(int \<Rightarrow> int \<Rightarrow> int \<Rightarrow> Real) \<Rightarrow> Real list \<Rightarrow> int \<Rightarrow> int \<Rightarrow> int \<Rightarrow> Real" where
  "NormalDifferenceX phi dd k j i = (phi k j (i + 1) - phi k j i) * dd ! X"

definition TangentialAverageY :: "(int \<Rightarrow> int \<Rightarrow> int \<Rightarrow> Real) \<Rightarrow> Real list \<Rightarrow> int \<Rightarrow> int \<Rightarrow> int \<Rightarrow> Real" where
  "TangentialAverageY phi dd k j i =
     0.25 * (phi k (j + 1) i + phi k (j + 1) (i + 1) - phi k (j - 1) i - phi k (j - 1) (i + 1)) * dd ! Y"

definition TangentialAverageZ :: "(int \<Rightarrow> int \<Rightarrow> int \<Rightarrow> Real) \<Rightarrow> Real list \<Rightarrow> int \<Rightarrow> int \<Rightarrow> int \<Rightarrow> Real" where
  "TangentialAverageZ phi dd k j i =
     0.25 * (phi (k + 1) j i + phi (k + 1) j (i + 1) - phi (k - 1) j i - phi (k - 1) j (i + 1)) * dd ! Z"

definition FaceValueX :: "(int \<Rightarrow> int \<Rightarrow> int \<Rightarrow> Real) \<Rightarrow> int \<Rightarrow> int \<Rightarrow> int \<Rightarrow> Real" where
  "FaceValueX phi k j i = 0.5 * (phi k j i + phi k j (i + 1))"

section \<open>cfdparameters.c: parameter initialization\<close>

text \<open>
  The structures \<open>Space\<close>, \<open>Time\<close> and \<open>Flow\<close> are declared in commons.h, which is
  not among the available sources; the records hold the members that the
  functions modelled here read or write.  On entry \<open>nx\<close>, \<open>ny\<close>, \<open>nz\<close> hold the user's cell counts.
  \<open>ghostFlag\<close> and \<open>geoID\<close> are the node arrays of the immersed-boundary
  classifier, \<open>nodeFlag\<close> with \<open>nodeFlagOffset\<close> the node array that the EnSight
  exporter reads; each array is a store addressed by the flat node index.
\<close>

record Space =
  nx :: int
  ny :: int
  nz :: int
  ng :: int
  kMax :: int
  jMax :: int
  iMax :: int
  nMax :: int
  dx :: Real
  dy :: Real
  dz :: Real
  ddx :: Real
  ddy :: Real
  ddz :: Real
  tinyL :: Real
  xMin :: Real
  yMin :: Real
  zMin :: Real
  xMax :: Real
  yMax :: Real
  zMax :: Real
  ghostFlag :: "int \<Rightarrow> int"
  geoID :: "int \<Rightarrow> int"
  nodeFlag :: "int \<Rightarrow> int"
  nodeFlagOffset :: int

record Time =
  totalTime :: Real
  totalStep :: int

record Flow =
  refLength :: Real
  refVelocity :: Real
  refDensity :: Real
  refTemperature :: Real
  refMu :: Real
  refMa :: Real
  gamma :: Real
  gammaMinusOne :: Real
  gasR :: Real
  cv :: Real

definition MinReal :: "Real \<Rightarrow> Real \<Rightarrow> Real" where
  "MinReal x y = (if x < y then x else y)"

definition MaxReal :: "Real \<Rightarrow> Real \<Rightarrow> Real" where
  "MaxReal x y = (if x > y then x else y)"

definition MinInt :: "int \<Rightarrow> int \<Rightarrow> int" where
  "MinInt x y = (if x < y then x else y)"

definition MaxInt :: "int \<Rightarrow> int \<Rightarrow> int" where
  "MaxInt x y = (if x > y then x else y)"

definition NodeBasedMeshNumberRefine :: "Space \<Rightarrow> Space" where
  "NodeBasedMeshNumberRefine space =
     (let space = space\<lparr>nz := nz space + 2\<rparr>;
          space = space\<lparr>ny := ny space + 2\<rparr>;
          space = space\<lparr>nx := nx space + 2\<rparr>;
          space = space\<lparr>kMax := nz space + 2 * ng space\<rparr>;
          space = space\<lparr>jMax := ny space + 2 * ng space\<rparr>;
          space = space\<lparr>iMax := nx space + 2 * ng space\<rparr>;
          space = space\<lparr>nMax := kMax space * jMax space * iMax space\<rparr>
      in space)"

definition InitializeCFDParameters :: "Space \<Rightarrow> Time \<Rightarrow> Flow \<Rightarrow> Space \<times> Time \<times> Flow" where
  "InitializeCFDParameters space time flow =
     (let space = space\<lparr>dz := ((zMax space - zMin space) / of_int (nz space - 1)) / refLength flow\<rparr>;
          space = space\<lparr>dy := ((yMax space - yMin space) / of_int (ny space - 1)) / refLength flow\<rparr>;
          space = space\<lparr>dx := ((xMax space - xMin space) / of_int (nx space - 1)) / refLength flow\<rparr>;
          space = space\<lparr>xMax := xMax space / refLength flow\<rparr>;
          space = space\<lparr>yMax := yMax space / refLength flow\<rparr>;
          space = space\<lparr>zMax := zMax space / refLength flow\<rparr>;
          space = space\<lparr>xMin := xMin space / refLength flow\<rparr>;
          space = space\<lparr>yMin := yMin space / refLength flow\<rparr>;
          space = space\<lparr>zMin := zMin space / refLength flow\<rparr>;
          space = space\<lparr>ddx := 1.0 / dx space\<rparr>;
          space = space\<lparr>ddy := 1.0 / dy space\<rparr>;
          space = space\<lparr>ddz := 1.0 / dz space\<rparr>;
          space = space\<lparr>tinyL := 0.001 * MinReal (dz space) (MinReal (dx space) (dy space))\<rparr>;
          time = time\<lparr>totalTime := totalTime time * refVelocity flow / refLength flow\<rparr>;
          time = (if 0 > totalStep time then time\<lparr>totalStep := 9000000\<rparr> else time);
          flow = flow\<lparr>gamma := 1.4\<rparr>;
          flow = flow\<lparr>gammaMinusOne := gamma flow - 1\<rparr>;
          flow = flow\<lparr>gasR := 8.314462175\<rparr>;
          flow = flow\<lparr>refMa := refVelocity flow / sqrt (gamma flow * gasR flow * refTemperature flow)\<rparr>;
          flow = flow\<lparr>refMu := refMu flow / (refDensity flow * refVelocity flow * refLength flow)\<rparr>;
          flow = flow\<lparr>gasR := 1.0 / (gamma flow * refMa flow * refMa flow)\<rparr>;
          flow = flow\<lparr>cv := gasR flow / (gamma flow - 1.0)\<rparr>
      in (space, time, flow))"

definition ComputeCFDParameters :: "Space \<Rightarrow> Time \<Rightarrow> Flow \<Rightarrow> Space \<times> Time \<times> Flow" where
  "ComputeCFDParameters space time flow =
     InitializeCFDParameters (NodeBasedMeshNumberRefine space) time flow"

section \<open>Loops over index ranges\<close>

text \<open>
  \<open>ForRange lo hi body\<close> is the C loop \<open>for (v = lo; v < hi; ++v) body\<close> on the
  state that \<open>body\<close> updates; it runs \<open>hi - lo\<close> times, or not at all.
\<close>

definition ForRange :: "int \<Rightarrow> int \<Rightarrow> (int \<Rightarrow> 's \<Rightarrow> 's) \<Rightarrow> 's \<Rightarrow> 's" where
  "ForRange lo hi body s = fold body [lo..hi - 1] s"

section \<open>Ghost-cell immersed boundary: node classification\<close>

text \<open>
  \<open>Partition\<close> and \<open>Particle\<close> are declared in commons.h, which is not among the
  available sources; the records hold the members read by the functions
  modelled here.  A partition holds one index box
  per region, \<open>Sub\<close> inclusive and \<open>Sup\<close> exclusive; box 12 is the interior.
\<close>

record Partition =
  subN :: int
  name :: "string list"
  kSub :: "int list"
  kSup :: "int list"
  jSub :: "int list"
  jSup :: "int list"
  iSub :: "int list"
  iSup :: "int list"

record Particle =
  totalN :: int
  x :: "Real list"
  y :: "Real list"
  z :: "Real list"
  r :: "Real list"

text \<open>
  The first loop of \<open>InitializeDomainGeometryGCIBM\<close>: every node of the padded
  domain gets type 2.
\<close>

definition InitializeGhostFlag :: "Space \<Rightarrow> Space" where
  "InitializeGhostFlag space =
     space\<lparr>ghostFlag :=
       ForRange 0 (kMax space) (\<lambda>k.
         ForRange 0 (jMax space) (\<lambda>j.
           ForRange 0 (iMax space) (\<lambda>i flags.
             (let idx = (k * jMax space + j) * iMax space + i
              in flags(idx := 2)))))
         (ghostFlag space)\<rparr>"

text \<open>
  \<open>LocateSolidGeometry\<close>.  \<open>SolidDistance\<close> is the value of \<open>distance\<close> for node
  \<open>(k,j,i)\<close> and body \<open>geoCount\<close>; \<open>LocateSolidNode\<close> is the body of the loop over
  \<open>i\<close>, on the pair of arrays \<open>(ghostFlag, geoID)\<close>.
\<close>

definition SolidDistance :: "Space \<Rightarrow> Particle \<Rightarrow> int \<Rightarrow> int \<Rightarrow> int \<Rightarrow> int \<Rightarrow> Real" where
  "SolidDistance space particle k j i geoCount =
     (let distX = (of_int (i - ng space) * dx space - x particle ! nat geoCount) ^ 2;
          distY = (of_int (j - ng space) * dy space - y particle ! nat geoCount) ^ 2;
          distZ = (of_int (k - ng space) * dz space - z particle ! nat geoCount) ^ 2;
          radius = (r particle ! nat geoCount) ^ 2
      in distX + distY + distZ - radius)"

definition LocateSolidNode ::
    "Space \<Rightarrow> Particle \<Rightarrow> int \<Rightarrow> int \<Rightarrow> int \<Rightarrow> (int \<Rightarrow> int) \<times> (int \<Rightarrow> int) \<Rightarrow> (int \<Rightarrow> int) \<times> (int \<Rightarrow> int)" where
  "LocateSolidNode space particle k j i arrays =
     (let idx = (k * jMax space + j) * iMax space + i;
          arrays = ((fst arrays)(idx := 0), snd arrays)
      in ForRange 0 (totalN particle) (\<lambda>geoCount arrays.
           (let distance = SolidDistance space particle k j i geoCount
            in if distance < 0
               then ((fst arrays)(idx := - 1), (snd arrays)(idx := geoCount))
               else arrays))
           arrays)"

definition LocateSolidGeometry :: "Space \<Rightarrow> Particle \<Rightarrow> Partition \<Rightarrow> Space" where
  "LocateSolidGeometry space particle part =
     (let arrays =
            ForRange (kSub part ! 12) (kSup part ! 12) (\<lambda>k.
              ForRange (jSub part ! 12) (jSup part ! 12) (\<lambda>j.
                ForRange (iSub part ! 12) (iSup part ! 12) (\<lambda>i.
                  LocateSolidNode space particle k j i)))
              (ghostFlag space, geoID space)
      in space\<lparr>ghostFlag := fst arrays, geoID := snd arrays\<rparr>)"

text \<open>
  \<open>IdentifyGhostCells\<close>.  \<open>IdentifyGhostNode\<close> is the body of the loop over \<open>i\<close>, on
  the array \<open>ghostFlag\<close>; it reads the six neighbours in the array as it is at
  that moment of the sweep.
\<close>

definition IdentifyGhostNode :: "Space \<Rightarrow> int \<Rightarrow> int \<Rightarrow> int \<Rightarrow> (int \<Rightarrow> int) \<Rightarrow> (int \<Rightarrow> int)" where
  "IdentifyGhostNode space k j i flags =
     (let idx = (k * jMax space + j) * iMax space + i
      in if flags idx = - 1
         then (let idxW = (k * jMax space + j) * iMax space + i - 1;
                   idxE = (k * jMax space + j) * iMax space + i + 1;
                   idxS = (k * jMax space + j - 1) * iMax space + i;
                   idxN = (k * jMax space + j + 1) * iMax space + i;
                   idxF = ((k - 1) * jMax space + j) * iMax space + i;
                   idxB = ((k + 1) * jMax space + j) * iMax space + i;
                   flag = flags idxW * flags idxE * flags idxS * flags idxN * flags idxF * flags idxB
               in if flag = 0 then flags(idx := 1) else flags)
         else flags)"

definition IdentifyGhostCells :: "Space \<Rightarrow> Partition \<Rightarrow> Space" where
  "IdentifyGhostCells space part =
     space\<lparr>ghostFlag :=
       ForRange (kSub part ! 12) (kSup part ! 12) (\<lambda>k.
         ForRange (jSub part ! 12) (jSup part ! 12) (\<lambda>j.
           ForRange (iSub part ! 12) (iSup part ! 12) (\<lambda>i.
             IdentifyGhostNode space k j i)))
         (ghostFlag space)\<rparr>"

definition ComputeDomainGeometryGCIBM :: "Space \<Rightarrow> Particle \<Rightarrow> Partition \<Rightarrow> Space" where
  "ComputeDomainGeometryGCIBM space particle part =
     IdentifyGhostCells (LocateSolidGeometry space particle part) part"

definition InitializeDomainGeometryGCIBM :: "Space \<Rightarrow> Particle \<Rightarrow> Partition \<Rightarrow> Space" where
  "InitializeDomainGeometryGCIBM space particle part =
     ComputeDomainGeometryGCIBM (InitializeGhostFlag space) particle part"

text \<open>
  Notions for stating the classifier's properties: the nodes of a box in the
  order the three loops visit them, membership in the interior box and in the
  padded domain, the flat index of a node, and its six axis-aligned
  neighbours in the order \<open>W, E, S, N, F, B\<close> of the source.
\<close>

definition BoxNodes :: "int \<Rightarrow> int \<Rightarrow> int \<Rightarrow> int \<Rightarrow> int \<Rightarrow> int \<Rightarrow> (int \<times> int \<times> int) list" where
  "BoxNodes kLo kHi jLo jHi iLo iHi =
     concat (map (\<lambda>k. concat (map (\<lambda>j. map (\<lambda>i. (k, j, i)) [iLo..iHi - 1]) [jLo..jHi - 1])) [kLo..kHi - 1])"

definition InInterior :: "Partition \<Rightarrow> int \<times> int \<times> int \<Rightarrow> bool" where
  "InInterior part node =
     (case node of (k, j, i) \<Rightarrow>
        kSub part ! 12 \<le> k \<and> k < kSup part ! 12 \<and>
        jSub part ! 12 \<le> j \<and> j < jSup part ! 12 \<and>
        iSub part ! 12 \<le> i \<and> i < iSup part ! 12)"

definition InDomain :: "Space \<Rightarrow> int \<times> int \<times> int \<Rightarrow> bool" where
  "InDomain space node =
     (case node of (k, j, i) \<Rightarrow>
        0 \<le> k \<and> k < kMax space \<and> 0 \<le> j \<and> j < jMax space \<and> 0 \<le> i \<and> i < iMax space)"

definition NodeIndex :: "Space \<Rightarrow> int \<times> int \<times> int \<Rightarrow> int" where
  "NodeIndex space node = (case node of (k, j, i) \<Rightarrow> (k * jMax space + j) * iMax space + i)"

definition SixNeighbours :: "int \<times> int \<times> int \<Rightarrow> (int \<times> int \<times> int) list" where
  "SixNeighbours node =
     (case node of (k, j, i) \<Rightarrow>
        [(k, j, i - 1), (k, j, i + 1), (k, j - 1, i), (k, j + 1, i), (k - 1, j, i), (k + 1, j, i)])"

definition NeighbourProduct :: "Space \<Rightarrow> (int \<Rightarrow> int) \<Rightarrow> int \<times> int \<times> int \<Rightarrow> int" where
  "NeighbourProduct space flags node =
     prod_list (map (\<lambda>m. flags (NodeIndex space m)) (SixNeighbours node))"

text \<open>
  The flag that the first pass stores at a node: solid when some body
  \<open>geoCount\<close> of \<open>0 .. totalN - 1\<close> has \<open>distance < 0\<close> there.
\<close>

definition SolidFlag :: "Space \<Rightarrow> Particle \<Rightarrow> int \<times> int \<times> int \<Rightarrow> int" where
  "SolidFlag space particle node =
     (case node of (k, j, i) \<Rightarrow>
        if \<exists>geoCount \<in> {0..<totalN particle}. SolidDistance space particle k j i geoCount < 0
        then - 1 else 0)"

text \<open>
  The bodies, in the order they are tested, whose \<open>distance\<close> at a node is
  negative.
\<close>

definition ContainingBodies :: "Space \<Rightarrow> Particle \<Rightarrow> int \<times> int \<times> int \<Rightarrow> int list" where
  "ContainingBodies space particle node =
     (case node of (k, j, i) \<Rightarrow>
        filter (\<lambda>geoCount. SolidDistance space particle k j i geoCount < 0) [0..totalN particle - 1])"

text \<open>
  The specification's test for node \<open>(k,j,i)\<close> and body \<open>b\<close>:
  \<open>d^2 = (x_i - x_b)^2 + (y_j - y_b)^2 + (z_k - z_b)^2 - r_b^2\<close> with the physical
  coordinate \<open>x_i = xMin + (i - ng) * dx\<close>, which is \<open>PointSpace\<close> of cfd_commons.c.
\<close>

definition ClaimedDistance :: "Space \<Rightarrow> Particle \<Rightarrow> int \<times> int \<times> int \<Rightarrow> nat \<Rightarrow> Real" where
  "ClaimedDistance space particle node b =
     (case node of (k, j, i) \<Rightarrow>
        (PointSpace i (xMin space) (dx space) (ng space) - x particle ! b) ^ 2
        + (PointSpace j (yMin space) (dy space) (ng space) - y particle ! b) ^ 2
        + (PointSpace k (zMin space) (dz space) (ng space) - z particle ! b) ^ 2
        - (r particle ! b) ^ 2)"

text \<open>
  The interior box lies strictly inside the padded domain, so that the six
  neighbours of each of its nodes are nodes of the domain (the source indexes
  the array with them).
\<close>

definition InteriorInsideDomain :: "Space \<Rightarrow> Partition \<Rightarrow> bool" where
  "InteriorInsideDomain space part =
     (1 \<le> kSub part ! 12 \<and> kSup part ! 12 \<le> kMax space - 1 \<and>
      1 \<le> jSub part ! 12 \<and> jSup part ! 12 \<le> jMax space - 1 \<and>
      1 \<le> iSub part ! 12 \<and> iSup part ! 12 \<le> iMax space - 1)"

section \<open>ensightexporter.c: the geometry file\<close>

text \<open>
  The geometry file is the sequence of records written to it: an
  \<open>EnsightString\<close> buffer, an \<open>int\<close>, or an \<open>EnsightReal\<close>.  Every \<open>fwrite\<close> appends
  to the sequence.  Whether \<open>fopen\<close> succeeds is the input \<open>fileOpens\<close>; when it
  does not, \<open>FatalError\<close> ends the program with its message and nothing is
  written.
\<close>

datatype EnsightItem = EnsightString string | EnsightInt int | EnsightReal Real

definition IndexMath :: "int \<Rightarrow> int \<Rightarrow> int \<Rightarrow> Space \<Rightarrow> int" where
  \<comment> \<open>Modelled from the spec: \<open>IndexMath\<close> is not among the available sources; the spec gives
      \<open>idx(k,j,i) = (k * jMax + j) * iMax + i\<close>.\<close>
  "IndexMath k j i space = (k * jMax space + j) * iMax space + i"

definition BlankID :: "int \<Rightarrow> int \<Rightarrow> int" where
  \<comment> \<open>The \<open>if\<close> statement that turns a node flag into the iblank entry.\<close>
  "BlankID offset flag = (if (- offset < flag) \<and> (offset > flag) then 1 else 0)"

definition WriteEnsightGeometryPart :: "Space \<Rightarrow> Partition \<Rightarrow> int \<Rightarrow> int \<Rightarrow> EnsightItem list \<Rightarrow> EnsightItem list" where
  \<comment> \<open>The body of the loop over \<open>partCount\<close>; \<open>partNum\<close> is \<open>partCount + 1\<close> in
      every iteration.\<close>
  "WriteEnsightGeometryPart space part offset partCount file =
     (let partNum = partCount + 1;
          p = nat partCount;
          file = file @ [EnsightString ''part''];
          file = file @ [EnsightInt partNum];
          file = file @ [EnsightString (name part ! p)];
          file = file @ [EnsightString ''block iblanked''];
          nodeCount = [iSup part ! p - iSub part ! p, jSup part ! p - jSub part ! p,
                       kSup part ! p - kSub part ! p];
          file = file @ map EnsightInt nodeCount;
          file = ForRange (kSub part ! p) (kSup part ! p) (\<lambda>k.
                   ForRange (jSub part ! p) (jSup part ! p) (\<lambda>j.
                     ForRange (iSub part ! p) (iSup part ! p) (\<lambda>i file.
                       file @ [EnsightReal (xMin space + of_int (i - ng space) * dx space)]))) file;
          file = ForRange (kSub part ! p) (kSup part ! p) (\<lambda>k.
                   ForRange (jSub part ! p) (jSup part ! p) (\<lambda>j.
                     ForRange (iSub part ! p) (iSup part ! p) (\<lambda>i file.
                       file @ [EnsightReal (yMin space + of_int (j - ng space) * dy space)]))) file;
          file = ForRange (kSub part ! p) (kSup part ! p) (\<lambda>k.
                   ForRange (jSub part ! p) (jSup part ! p) (\<lambda>j.
                     ForRange (iSub part ! p) (iSup part ! p) (\<lambda>i file.
                       file @ [EnsightReal (zMin space + of_int (k - ng space) * dz space)]))) file;
          file = ForRange (kSub part ! p) (kSup part ! p) (\<lambda>k.
                   ForRange (jSub part ! p) (jSup part ! p) (\<lambda>j.
                     ForRange (iSub part ! p) (iSup part ! p) (\<lambda>i file.
                       (let idx = IndexMath k j i space;
                            blankID = BlankID offset (nodeFlag space idx)
                        in file @ [EnsightInt blankID])))) file
      in file)"

definition WriteEnsightGeometryFile :: "bool \<Rightarrow> Space \<Rightarrow> Partition \<Rightarrow> string + EnsightItem list" where
  "WriteEnsightGeometryFile fileOpens space part =
     (if \<not> fileOpens then Inl ''failed to write geometry file...''
      else
        (let file = [];
             file = file @ [EnsightString ''C Binary''];
             file = file @ [EnsightString ''Ensight Geometry File''];
             file = file @ [EnsightString ''Written by ArtraCFD''];
             file = file @ [EnsightString ''node id off''];
             file = file @ [EnsightString ''element id off''];
             offset = nodeFlagOffset space
         in Inr (ForRange 0 (subN part) (WriteEnsightGeometryPart space part offset) file)))"

text \<open>
  The specification's rule for the iblank entry: 1 iff the magnitude of the
  flag is strictly less than the offset.
\<close>

definition IblankRule :: "int \<Rightarrow> int \<Rightarrow> int" where
  "IblankRule offset flag = (if \<bar>flag\<bar> < offset then 1 else 0)"

text \<open>
  The records of one part as the specification describes them: the part
  header, the three coordinate blocks and the iblank block, each block in the
  \<open>k, j, i\<close> order of the loops.
\<close>

definition PartNodes :: "Partition \<Rightarrow> int \<Rightarrow> (int \<times> int \<times> int) list" where
  "PartNodes part partCount =
     (let p = nat partCount
      in BoxNodes (kSub part ! p) (kSup part ! p) (jSub part ! p) (jSup part ! p)
                  (iSub part ! p) (iSup part ! p))"

definition PartRecords :: "Space \<Rightarrow> Partition \<Rightarrow> int \<Rightarrow> EnsightItem list" where
  "PartRecords space part partCount =
     (let p = nat partCount; nodes = PartNodes part partCount
      in [EnsightString ''part'', EnsightInt (partCount + 1), EnsightString (name part ! p),
          EnsightString ''block iblanked'',
          EnsightInt (iSup part ! p - iSub part ! p), EnsightInt (jSup part ! p - jSub part ! p),
          EnsightInt (kSup part ! p - kSub part ! p)]
         @ map (\<lambda>(k, j, i). EnsightReal (xMin space + of_int (i - ng space) * dx space)) nodes
         @ map (\<lambda>(k, j, i). EnsightReal (yMin space + of_int (j - ng space) * dy space)) nodes
         @ map (\<lambda>(k, j, i). EnsightReal (zMin space + of_int (k - ng space) * dz space)) nodes
         @ map (\<lambda>(k, j, i). EnsightInt (IblankRule (nodeFlagOffset space)
                                  (nodeFlag space (IndexMath k j i space)))) nodes)"

section \<open>Example inputs\<close>

text \<open>
  A grid of \<open>2 \<times> 1 \<times> 1\<close> cells with one ghost layer on the box
  \<open>[0,3] \<times> [0,2] \<times> [0,2]\<close>: \<open>4 \<times> 3 \<times> 3\<close> node layers, \<open>6 \<times> 5 \<times> 5\<close> nodes with the
  ghosts, spacing 1.  Its interior box holds the two nodes \<open>(2,2,2)\<close> and
  \<open>(2,2,3)\<close>.  One sphere of radius 1/2 sits on the first of them.
\<close>

definition ExampleSpace :: Space where
  "ExampleSpace =
     \<lparr>nx = 4, ny = 3, nz = 3, ng = 1, kMax = 5, jMax = 5, iMax = 6, nMax = 150,
      dx = 1, dy = 1, dz = 1, ddx = 1, ddy = 1, ddz = 1, tinyL = 0.001,
      xMin = 0, yMin = 0, zMin = 0, xMax = 3, yMax = 2, zMax = 2,
      ghostFlag = (\<lambda>a. 0), geoID = (\<lambda>a. 0), nodeFlag = (\<lambda>a. 0), nodeFlagOffset = 2\<rparr>"

definition ExamplePartition :: Partition where
  "ExamplePartition =
     \<lparr>subN = 13, name = replicate 13 ''part'',
      kSub = replicate 12 0 @ [2], kSup = replicate 12 0 @ [3],
      jSub = replicate 12 0 @ [2], jSup = replicate 12 0 @ [3],
      iSub = replicate 12 0 @ [2], iSup = replicate 12 0 @ [4]\<rparr>"

definition ExampleParticle :: Particle where
  "ExampleParticle = \<lparr>totalN = 1, x = [1], y = [1], z = [1], r = [1 / 2]\<rparr>"

text \<open>
  The same grid on the box \<open>[1,4] \<times> [1,3] \<times> [1,3]\<close>, with the sphere on the physical
  position \<open>(2,2,2)\<close> of node \<open>(2,2,2)\<close>.
\<close>

definition ShiftedSpace :: Space where
  "ShiftedSpace = ExampleSpace\<lparr>xMin := 1, yMin := 1, zMin := 1, xMax := 4, yMax := 3, zMax := 3\<rparr>"

definition ShiftedParticle :: Particle where
  "ShiftedParticle = \<lparr>totalN = 1, x = [2], y = [2], z = [2], r = [1 / 2]\<rparr>"

text \<open>
  A single part of four nodes in a row whose flags are fluid, ghost, solid and
  exterior.
\<close>

definition ExportSpace :: Space where
  "ExportSpace =
     ExampleSpace\<lparr>kMax := 1, jMax := 1, iMax := 4, nodeFlag := (\<lambda>a. [0, 1, - 1, 2] ! nat a)\<rparr>"

definition ExportPartition :: Partition where
  "ExportPartition =
     \<lparr>subN = 1, name = [''domain''], kSub = [0], kSup = [1], jSub = [0], jSup = [1],
      iSub = [0], iSup = [4]\<rparr>"

section \<open>Helper facts\<close>

lemma upt_DIMU: "[0..<DIMU] = [0, 1, 2, 3, 4]"
  by (simp add: DIMU_def upt_rec)

lemma sqrt_square_plus_ge_abs: "\<bar>x\<bar> \<le> sqrt (x * x + e * e)" for x e :: real
proof -
  have "x * x \<le> x * x + e * e"
    by simp
  then have "sqrt (x * x) \<le> sqrt (x * x + e * e)"
    by (rule real_sqrt_le_mono)
  then show ?thesis
    by simp
qed

lemma StegerWarming_nth:
  assumes "row < DIMU"
  shows "fst (StegerWarming Lambda) ! row
           = 0.5 * (Lambda ! row + sqrt (Lambda ! row * Lambda ! row + 0.001 * 0.001))"
    and "snd (StegerWarming Lambda) ! row
           = 0.5 * (Lambda ! row - sqrt (Lambda ! row * Lambda ! row + 0.001 * 0.001))"
  using assms unfolding StegerWarming_def Let_def by simp_all

lemma LocalLaxFriedrichs_nth:
  assumes "row < DIMU"
  shows "fst (LocalLaxFriedrichs Lambda) ! row
           = 0.5 * (Lambda ! row + (\<bar>Lambda ! 2\<bar> + Lambda ! 4 - Lambda ! 2))"
    and "snd (LocalLaxFriedrichs Lambda) ! row
           = 0.5 * (Lambda ! row - (\<bar>Lambda ! 2\<bar> + Lambda ! 4 - Lambda ! 2))"
  using assms unfolding LocalLaxFriedrichs_def Let_def by simp_all

lemma EigenvalueSplitting_cases:
  "EigenvalueSplitting 0 Lambda = LocalLaxFriedrichs Lambda"
  "EigenvalueSplitting 1 Lambda = StegerWarming Lambda"
  unfolding EigenvalueSplitting_def SplitEigenvalue_def by simp_all

section \<open>Thermodynamic round trip\<close>

text \<open>
  Claim C6.  For a primitive vector \<open>(rho, u, v, w, p)\<close> with \<open>rho > 0\<close>, \<open>p > 0\<close> and
  \<open>gamma > 1\<close>, \<open>ConservativeByPrimitive\<close> followed by \<open>PrimitiveByConservative\<close>
  gives back \<open>rho, u, v, w, p\<close> exactly, and the sixth component returned, the
  temperature, is \<open>p / (rho * gasR)\<close>.  The sixth component \<open>T\<close> of the input is
  not read.
\<close>

theorem primitive_conservative_roundtrip:
  assumes "0 < rho" and "0 < p" and "1 < gam"
  shows "PrimitiveByConservative gam gR (ConservativeByPrimitive gam [rho, u, v, w, p, T])
         = [rho, u, v, w, p, p / (rho * gR)]"
proof -
  have r: "rho \<noteq> 0" and g: "gam - 1 \<noteq> 0"
    using assms by auto
  have e: "(rho * (u * u + v * v + w * w) / 2 + p / (gam - 1)
            - (rho * u * (rho * u) + rho * v * (rho * v) + rho * w * (rho * w)) / (2 * rho))
           * (gam - 1) = p"
    using r g by (simp add: field_simps)
  show ?thesis
    unfolding PrimitiveByConservative_def ConservativeByPrimitive_def Let_def
    using r g by (simp add: e)
qed

theorem primitive_conservative_roundtrip_witness:
  "(0::real) < 2 \<and> (0::real) < 3 \<and> (1::real) < 2 \<and>
   PrimitiveByConservative 2 4 (ConservativeByPrimitive 2 [2, 1, 0, 0, 3, 7])
     = [2, 1, 0, 0, 3, 3 / (2 * 4)]"
  using primitive_conservative_roundtrip [of 2 3 2 4 1 0 0 7] by simp

section \<open>Eigenvalue splitting\<close>

text \<open>
  Claim C4.  For both splitters (index 0, Local Lax-Friedrichs, and index 1,
  Steger-Warming, of the dispatch table) and every component \<open>row\<close> of a
  five-component eigenvalue vector, \<open>LambdaP[row] + LambdaN[row] = Lambda[row]\<close>:
  exactly for Local Lax-Friedrichs, and within \<open>epsilon = 0.001\<close> for
  Steger-Warming (where the sum is in fact exact as well).  The Steger-Warming
  outputs satisfy \<open>LambdaP[row] \<ge> 0\<close> and \<open>LambdaN[row] \<le> 0\<close>.
\<close>

theorem splitter_sum_and_sign:
  assumes "row < DIMU"
  shows "fst (EigenvalueSplitting 0 Lambda) ! row + snd (EigenvalueSplitting 0 Lambda) ! row
           = Lambda ! row
       \<and> \<bar>fst (EigenvalueSplitting 1 Lambda) ! row + snd (EigenvalueSplitting 1 Lambda) ! row
           - Lambda ! row\<bar> \<le> 0.001
       \<and> fst (EigenvalueSplitting 1 Lambda) ! row + snd (EigenvalueSplitting 1 Lambda) ! row
           = Lambda ! row
       \<and> 0 \<le> fst (EigenvalueSplitting 1 Lambda) ! row
       \<and> snd (EigenvalueSplitting 1 Lambda) ! row \<le> 0"
proof -
  let ?x = "Lambda ! row"
  have dom: "\<bar>?x\<bar> \<le> sqrt (?x * ?x + 0.001 * 0.001)"
    by (rule sqrt_square_plus_ge_abs)
  have lf: "fst (EigenvalueSplitting 0 Lambda) ! row + snd (EigenvalueSplitting 0 Lambda) ! row = ?x"
    unfolding EigenvalueSplitting_cases
    by (simp add: LocalLaxFriedrichs_nth [OF assms] field_simps)
  have sw: "fst (EigenvalueSplitting 1 Lambda) ! row + snd (EigenvalueSplitting 1 Lambda) ! row = ?x"
    unfolding EigenvalueSplitting_cases
    by (simp add: StegerWarming_nth [OF assms] field_simps)
  have within: "\<bar>fst (EigenvalueSplitting 1 Lambda) ! row + snd (EigenvalueSplitting 1 Lambda) ! row - ?x\<bar>
          \<le> 0.001"
    unfolding sw by simp
  have pos: "0 \<le> fst (EigenvalueSplitting 1 Lambda) ! row"
    using dom unfolding EigenvalueSplitting_cases
    by (simp add: StegerWarming_nth [OF assms])
  have neg: "snd (EigenvalueSplitting 1 Lambda) ! row \<le> 0"
    using dom unfolding EigenvalueSplitting_cases
    by (simp add: StegerWarming_nth [OF assms])
  from lf within sw pos neg show ?thesis
    by blast
qed

theorem splitter_sum_and_sign_witness:
  "(2::nat) < DIMU \<and>
   fst (EigenvalueSplitting 0 [-1, 1, 1, 1, 3]) ! 2 + snd (EigenvalueSplitting 0 [-1, 1, 1, 1, 3]) ! 2 = 1 \<and>
   fst (EigenvalueSplitting 1 [-1, 1, 1, 1, 3]) ! 2 + snd (EigenvalueSplitting 1 [-1, 1, 1, 1, 3]) ! 2 = 1 \<and>
   0 \<le> fst (EigenvalueSplitting 1 [-1, 1, 1, 1, 3]) ! 2 \<and>
   snd (EigenvalueSplitting 1 [-1, 1, 1, 1, 3]) ! 2 \<le> 0"
proof -
  have h: "(2::nat) < DIMU"
    by (simp add: DIMU_def)
  show ?thesis
    using h splitter_sum_and_sign [OF h, of "[-1, 1, 1, 1, 3]"] by simp
qed

section \<open>Frame of the symmetric average\<close>

text \<open>
  Claim C10.  Whatever the averager, \<open>gamma\<close> and the two input states,
  \<open>SymmetricAverage\<close> leaves \<open>Uo[0]\<close> as it was before the call: it assigns
  components 1 to 5 only.  Nothing beyond index 5 changes either, and the
  array keeps its length.
\<close>

theorem SymmetricAverage_frame:
  "SymmetricAverage averager gam UL UR Uo ! 0 = Uo ! 0 \<and>
   drop 6 (SymmetricAverage averager gam UL UR Uo) = drop 6 Uo \<and>
   length (SymmetricAverage averager gam UL UR Uo) = length Uo"
  unfolding SymmetricAverage_def Let_def by simp

section \<open>Left and right eigenvectors are mutually inverse\<close>

text \<open>
  Each of the three products is checked entry by entry: after the definitions
  of \<open>q\<close>, \<open>b\<close>, \<open>d\<close> and the sound-speed relation are substituted, every entry is
  an identity of rational functions in \<open>u, v, w, c, gamma\<close>.
\<close>

lemma LX_RX_inverse:
  fixes u v w c g q b d hT :: real
  assumes c: "c \<noteq> 0" and g: "g - 1 \<noteq> 0"
    and q: "q = 0.5 * (u * u + v * v + w * w)"
    and b: "b = (g - 1.0) / (2.0 * c * c)"
    and d: "d = 1.0 / (2.0 * c)"
    and hT: "hT = q + c * c / (g - 1)"
  shows "MatrixProduct (EigenvectorLX u v w c q b d) (EigenvectorRX u v w hT c q) = IdentityMatrix"
  unfolding MatrixProduct_def IdentityMatrix_def EigenvectorLX_def EigenvectorRX_def upt_DIMU
  apply simp
  apply (intro conjI)
  unfolding hT b d q
  using c g apply (simp_all add: field_simps)
  done

lemma LY_RY_inverse:
  fixes u v w c g q b d hT :: real
  assumes c: "c \<noteq> 0" and g: "g - 1 \<noteq> 0"
    and q: "q = 0.5 * (u * u + v * v + w * w)"
    and b: "b = (g - 1.0) / (2.0 * c * c)"
    and d: "d = 1.0 / (2.0 * c)"
    and hT: "hT = q + c * c / (g - 1)"
  shows "MatrixProduct (EigenvectorLY u v w c q b d) (EigenvectorRY u v w hT c q) = IdentityMatrix"
  unfolding MatrixProduct_def IdentityMatrix_def EigenvectorLY_def EigenvectorRY_def upt_DIMU
  apply simp
  apply (intro conjI)
  unfolding hT b d q
  using c g apply (simp_all add: field_simps)
  done

lemma LZ_RZ_inverse:
  fixes u v w c g q b d hT :: real
  assumes c: "c \<noteq> 0" and g: "g - 1 \<noteq> 0"
    and q: "q = 0.5 * (u * u + v * v + w * w)"
    and b: "b = (g - 1.0) / (2.0 * c * c)"
    and d: "d = 1.0 / (2.0 * c)"
    and hT: "hT = q + c * c / (g - 1)"
  shows "MatrixProduct (EigenvectorLZ u v w c q b d) (EigenvectorRZ u v w hT c q) = IdentityMatrix"
  unfolding MatrixProduct_def IdentityMatrix_def EigenvectorLZ_def EigenvectorRZ_def upt_DIMU
  apply simp
  apply (intro conjI)
  unfolding hT b d q
  using c g apply (simp_all add: field_simps)
  done

lemma sound_speed_total_enthalpy:
  fixes c g hT q :: real
  assumes "0 < c" and "1 < g" and "c = sqrt ((g - 1.0) * (hT - q))"
  shows "hT = q + c * c / (g - 1)"
proof -
  have nn: "0 \<le> (g - 1.0) * (hT - q)"
  proof (rule ccontr)
    assume "\<not> 0 \<le> (g - 1.0) * (hT - q)"
    then have "sqrt ((g - 1.0) * (hT - q)) < 0"
      by (simp add: real_sqrt_lt_0_iff)
    with assms show False by simp
  qed
  have "c * c = (g - 1.0) * (hT - q)"
    unfolding assms(3) using nn by simp
  then show ?thesis
    using assms(2) by (simp add: field_simps)
qed

lemma EigenvectorL_dispatch:
  "EigenvectorL 0 g [rho, u, v, w, hT, c]
     = EigenvectorLX u v w c (0.5 * (u * u + v * v + w * w)) ((g - 1.0) / (2.0 * c * c)) (1.0 / (2.0 * c))"
  "EigenvectorL 1 g [rho, u, v, w, hT, c]
     = EigenvectorLY u v w c (0.5 * (u * u + v * v + w * w)) ((g - 1.0) / (2.0 * c * c)) (1.0 / (2.0 * c))"
  "EigenvectorL 2 g [rho, u, v, w, hT, c]
     = EigenvectorLZ u v w c (0.5 * (u * u + v * v + w * w)) ((g - 1.0) / (2.0 * c * c)) (1.0 / (2.0 * c))"
  unfolding EigenvectorL_def Let_def by (simp_all add: ComputeEigenvectorL_def)

lemma EigenvectorR_dispatch:
  "EigenvectorR 0 [rho, u, v, w, hT, c] = EigenvectorRX u v w hT c (0.5 * (u * u + v * v + w * w))"
  "EigenvectorR 1 [rho, u, v, w, hT, c] = EigenvectorRY u v w hT c (0.5 * (u * u + v * v + w * w))"
  "EigenvectorR 2 [rho, u, v, w, hT, c] = EigenvectorRZ u v w hT c (0.5 * (u * u + v * v + w * w))"
  unfolding EigenvectorR_def Let_def by (simp_all add: ComputeEigenvectorR_def)

text \<open>
  Claim C3.  For each direction \<open>s\<close> in \<open>{x, y, z}\<close>, every \<open>gamma > 1\<close> and every
  averaged state \<open>(u, v, w, h_T)\<close> whose sound speed
  \<open>c = sqrt ((gamma - 1) * (h_T - (u^2 + v^2 + w^2) / 2))\<close> is strictly positive, the
  matrices of \<open>EigenvectorL\<close> and \<open>EigenvectorR\<close> satisfy \<open>L_s * R_s = I\<close> exactly.
  The state is the array \<open>Uo = (rho, u, v, w, h_T, c)\<close> that \<open>SymmetricAverage\<close>
  fills; its density slot is not read.
\<close>

theorem eigenvectors_inverse:
  assumes s: "s < DIMS" and g: "1 < gam" and c: "0 < c"
    and cs: "c = sqrt ((gam - 1.0) * (hT - 0.5 * (u * u + v * v + w * w)))"
  shows "MatrixProduct (EigenvectorL s gam [rho, u, v, w, hT, c]) (EigenvectorR s [rho, u, v, w, hT, c])
         = IdentityMatrix"
proof -
  have c0: "c \<noteq> 0" and g1: "gam - 1 \<noteq> 0"
    using g c by simp_all
  have hT: "hT = 0.5 * (u * u + v * v + w * w) + c * c / (gam - 1)"
    by (rule sound_speed_total_enthalpy [OF c g cs])
  from s have "s = 0 \<or> s = 1 \<or> s = 2"
    unfolding DIMS_def by arith
  then show ?thesis
  proof (elim disjE)
    assume s0: "s = 0"
    show ?thesis
      unfolding s0 EigenvectorL_dispatch EigenvectorR_dispatch
      by (rule LX_RX_inverse [OF c0 g1 refl refl refl hT])
  next
    assume s1: "s = 1"
    show ?thesis
      unfolding s1 EigenvectorL_dispatch EigenvectorR_dispatch
      by (rule LY_RY_inverse [OF c0 g1 refl refl refl hT])
  next
    assume s2: "s = 2"
    show ?thesis
      unfolding s2 EigenvectorL_dispatch EigenvectorR_dispatch
      by (rule LZ_RZ_inverse [OF c0 g1 refl refl refl hT])
  qed
qed

theorem eigenvectors_inverse_witness:
  "(0::nat) < DIMS \<and> (1::real) < 2 \<and> (0::real) < 1 \<and>
   (1::real) = sqrt ((2 - 1.0) * (3 - 0.5 * (2 * 2 + 0 * 0 + 0 * 0))) \<and>
   MatrixProduct (EigenvectorL 0 2 [1, 2, 0, 0, 3, 1]) (EigenvectorR 0 [1, 2, 0, 0, 3, 1]) = IdentityMatrix"
proof -
  have s: "(0::nat) < DIMS" by (simp add: DIMS_def)
  have g: "(1::real) < 2" by simp
  have c: "(0::real) < 1" by simp
  have cs: "(1::real) = sqrt ((2 - 1.0) * (3 - 0.5 * (2 * 2 + 0 * 0 + 0 * 0)))" by simp
  show ?thesis
    using s g c cs eigenvectors_inverse [OF s g c cs, of 1] by blast
qed

section \<open>Parameter normalization\<close>

lemma gasR_overwrite:
  fixes g r :: real
  assumes "0 < g" and "0 < r"
  shows "1 / (g * (1 / sqrt (g * r)) * (1 / sqrt (g * r))) = r"
proof -
  have "sqrt (g * r) * sqrt (g * r) = g * r"
    using assms by simp
  then have "g * (1 / sqrt (g * r)) * (1 / sqrt (g * r)) = g / (g * r)"
    by (simp add: field_simps)
  also have "\<dots> = 1 / r"
    using assms by simp
  finally show ?thesis
    by simp
qed

text \<open>
  Claim C7.  With \<open>ncx = ncy = ncz = 10\<close> (the values \<open>nx\<close>, \<open>ny\<close>, \<open>nz\<close> hold on
  entry), \<open>ng = 2\<close>, extents \<open>[0,1]^3\<close> and reference length, velocity, density and
  temperature all 1, \<open>ComputeCFDParameters\<close> yields \<open>nx = 12\<close>, \<open>iMax = 16\<close>,
  \<open>dx = 1/11\<close>, \<open>ddx = 11\<close>, \<open>gamma = 1.4\<close>, \<open>refMa = 1 / sqrt (1.4 * 8.314462175)\<close>
  and, after the overwrite, \<open>gasR = 8.314462175\<close>.  The members not named in
  the scenario (\<open>space\<close>, \<open>time\<close>, \<open>flow\<close> below) are arbitrary.
\<close>

theorem parameter_normalization_S2:
  "(case ComputeCFDParameters
           (space\<lparr>nx := 10, ny := 10, nz := 10, ng := 2,
                  xMin := 0, yMin := 0, zMin := 0, xMax := 1, yMax := 1, zMax := 1\<rparr>)
           time
           (flow\<lparr>refLength := 1, refVelocity := 1, refDensity := 1, refTemperature := 1\<rparr>)
    of (space', time', flow') \<Rightarrow>
      nx space' = 12 \<and> iMax space' = 16 \<and> dx space' = 1 / 11 \<and> ddx space' = 11 \<and>
      gamma flow' = 1.4 \<and> refMa flow' = 1 / sqrt (1.4 * 8.314462175) \<and>
      gasR flow' = 8.314462175)"
proof -
  have "1 / (1.4 * (1 / sqrt (1.4 * 8.314462175)) * (1 / sqrt (1.4 * 8.314462175)))
          = (8.314462175::real)"
    by (rule gasR_overwrite) simp_all
  then show ?thesis
    by (simp add: ComputeCFDParameters_def InitializeCFDParameters_def
          NodeBasedMeshNumberRefine_def Let_def)
qed

section \<open>Viscous flux at an x-face\<close>

text \<open>
  The temperature of the source, \<open>(rho E - (rho u)^2 ... / (2 rho)) / (rho cv)\<close>, is
  the specification's \<open>(rho E / rho - (u^2 + v^2 + w^2) / 2) / cv\<close>.
\<close>

lemma temperature_forms:
  fixes U0 U1 U2 U3 U4 c :: real
  shows "(U4 - 0.5 * (U1 * U1 + U2 * U2 + U3 * U3) / U0) / (U0 * c)
           = (U4 / U0 - 0.5 * (U1 / U0 * (U1 / U0) + U2 / U0 * (U2 / U0) + U3 / U0 * (U3 / U0))) / c"
proof (cases "U0 = 0")
  case True
  then show ?thesis by simp
next
  case False
  have "(U4 - 0.5 * (U1 * U1 + U2 * U2 + U3 * U3) / U0) / U0
          = U4 / U0 - 0.5 * (U1 / U0 * (U1 / U0) + U2 / U0 * (U2 / U0) + U3 / U0 * (U3 / U0))"
    using False by (simp add: field_simps)
  then show ?thesis
    by (simp add: divide_divide_eq_left [symmetric] del: divide_divide_eq_left)
qed

lemma ComputeTemperature_at_node:
  "ComputeTemperature (Model.cv model) (U (node (IndexNode k j i (n ! Y) (n ! X))) ! tn)
     = NodeTemperature model tn n node k j i"
  unfolding ComputeTemperature_def NodeTemperature_def NodeVelocity_def NodeState_def
    IndexNode_def Let_def
  by (rule temperature_forms)

lemma velocity_at_node:
  "U (node (IndexNode k j i (n ! Y) (n ! X))) ! tn ! m / U (node (IndexNode k j i (n ! Y) (n ! X))) ! tn ! 0
     = NodeVelocity m tn n node k j i"
  unfolding NodeVelocity_def NodeState_def IndexNode_def ..

text \<open>
  Claim C5.  At the x-face between nodes \<open>(k,j,i)\<close> and \<open>(k,j,i+1)\<close>,
  \<open>NumericalDiffusiveFluxX\<close> returns \<open>Fvhat[0] = 0\<close>,
  \<open>Fvhat[1] = mu_hat * (2 * du/dx - (2/3) * divV)\<close>,
  \<open>Fvhat[2] = mu_hat * (du/dy + dv/dx)\<close>, \<open>Fvhat[3] = mu_hat * (du/dz + dw/dx)\<close> and
  \<open>Fvhat[4] = k_hat * dT/dx + Fvhat[1] * u_hat + Fvhat[2] * v_hat + Fvhat[3] * w_hat\<close>,
  where the derivatives normal to the face are two-point differences, the
  tangential ones are four-point averages across the face, the face values
  are arithmetic means of the two adjacent nodes, \<open>mu_hat\<close> is \<open>refMu\<close> times
  Sutherland's law \<open>1.458e-6 * T^1.5 / (T + 110.4)\<close> at the dimensional
  temperature \<open>T = T_hat * refT\<close>, and \<open>k_hat = gamma * cv * mu_hat / Pr\<close> with
  \<open>Pr = 0.71\<close>.  The right-hand side uses no function of the source.
\<close>

theorem NumericalDiffusiveFluxX_stencil:
  "NumericalDiffusiveFluxX tn k j i n dd node model =
     (let u = NodeVelocity 1 tn n node;
          v = NodeVelocity 2 tn n node;
          w = NodeVelocity 3 tn n node;
          T = NodeTemperature model tn n node;
          du_dx = NormalDifferenceX u dd k j i;
          dv_dx = NormalDifferenceX v dd k j i;
          dw_dx = NormalDifferenceX w dd k j i;
          dT_dx = NormalDifferenceX T dd k j i;
          du_dy = TangentialAverageY u dd k j i;
          dv_dy = TangentialAverageY v dd k j i;
          du_dz = TangentialAverageZ u dd k j i;
          dw_dz = TangentialAverageZ w dd k j i;
          divV = du_dx + dv_dy + dw_dz;
          u_hat = FaceValueX u k j i;
          v_hat = FaceValueX v k j i;
          w_hat = FaceValueX w k j i;
          T_hat = FaceValueX T k j i;
          T_dim = T_hat * refT model;
          mu_hat = Model.refMu model * (1.458 / 10 ^ 6 * (T_dim powr 1.5) / (T_dim + 110.4));
          k_hat = Model.gamma model * Model.cv model * mu_hat / 0.71;
          Fv1 = mu_hat * (2 * du_dx - (2 / 3) * divV);
          Fv2 = mu_hat * (du_dy + dv_dx);
          Fv3 = mu_hat * (du_dz + dw_dx)
      in [0, Fv1, Fv2, Fv3, k_hat * dT_dx + Fv1 * u_hat + Fv2 * v_hat + Fv3 * w_hat])"
  unfolding NumericalDiffusiveFluxX_def
  by (simp add: Let_def ComputeTemperature_at_node velocity_at_node
        NormalDifferenceX_def TangentialAverageY_def TangentialAverageZ_def FaceValueX_def
        Viscosity_def PrandtlNumber_def)

section \<open>The orthogonal frame\<close>

lemma Normalize_DIMS: "Normalize DIMS a [v0, v1, v2] = [v0 / a, v1 / a, v2 / a]"
  unfolding Normalize_def DIMS_def
  by (simp add: upt_rec)

lemma Cross_3: "Cross [a0, a1, a2] [b0, b1, b2] [c0, c1, c2]
   = [a1 * b2 - a2 * b1, a2 * b0 - a0 * b2, a0 * b1 - a1 * b0]"
  unfolding Cross_def Let_def X_def Y_def Z_def by simp

text \<open>
  What \<open>OrthogonalSpace\<close> returns on three-component arrays: the normalized
  tangent it has just stored in \<open>Ta\<close> is overwritten by \<open>Tb \<times> N\<close>, computed from
  the caller's \<open>Tb\<close>, and \<open>Tb\<close> itself is never assigned.
\<close>

lemma OrthogonalSpace_result:
  "OrthogonalSpace [n0, n1, n2] [a0, a1, a2] [b0, b1, b2]
     = ([b1 * n2 - b2 * n1, b2 * n0 - b0 * n2, b0 * n1 - b1 * n0], [b0, b1, b2])"
  unfolding OrthogonalSpace_def Let_def
  by (simp add: X_def Y_def Z_def Normalize_DIMS Cross_3)

text \<open>
  Claim C9 says that for every nonzero \<open>N\<close> and arbitrary initial \<open>Ta\<close>, \<open>Tb\<close>, on
  return \<open>Ta\<close> is a unit vector orthogonal to \<open>N\<close> and \<open>Tb\<close> is orthogonal to \<open>N\<close>
  and \<open>Ta\<close>.  The code does not do this: at \<open>N = (1,0,0)\<close>, \<open>Ta = (0,0,0)\<close>,
  \<open>Tb = (2,2,0)\<close> it returns \<open>Ta = (0,0,-2)\<close>, of norm 2, and the unchanged
  \<open>Tb = (2,2,0)\<close> with \<open>Tb . N = 2\<close>.
\<close>

theorem OrthogonalSpace_not_a_frame:
  "OrthogonalSpace [1, 0, 0] [0, 0, 0] [2, 2, 0] = ([0, 0, - 2], [2, 2, 0]) \<and>
   Norm (fst (OrthogonalSpace [1, 0, 0] [0, 0, 0] [2, 2, 0])) = 2 \<and>
   Dot (snd (OrthogonalSpace [1, 0, 0] [0, 0, 0] [2, 2, 0])) [1, 0, 0] = 2"
  unfolding OrthogonalSpace_def Let_def
  by (simp add: X_def Y_def Z_def Normalize_DIMS Cross_3 Norm_def Dot_def)

section \<open>Sweeps over index boxes\<close>

lemma fold_over_concat: "fold f (concat xss) = fold (fold f) xss"
  by (induction xss) simp_all

text \<open>Three nested loops visit the nodes of the box in the order of \<open>BoxNodes\<close>.\<close>

lemma ForRange_triple:
  "ForRange kLo kHi (\<lambda>k. ForRange jLo jHi (\<lambda>j. ForRange iLo iHi (\<lambda>i. body k j i))) s
     = fold (\<lambda>(k, j, i). body k j i) (BoxNodes kLo kHi jLo jHi iLo iHi) s"
  unfolding ForRange_def BoxNodes_def
  by (simp add: fold_over_concat fold_map comp_def)

lemma set_BoxNodes:
  "(k, j, i) \<in> set (BoxNodes kLo kHi jLo jHi iLo iHi)
     \<longleftrightarrow> kLo \<le> k \<and> k < kHi \<and> jLo \<le> j \<and> j < jHi \<and> iLo \<le> i \<and> i < iHi"
  unfolding BoxNodes_def by (auto simp: image_iff)

text \<open>Distinct nodes of the padded domain have distinct flat indices.\<close>

lemma NodeIndex_inject:
  assumes "InDomain space m" and "InDomain space n" and "NodeIndex space m = NodeIndex space n"
  shows "m = n"
proof -
  obtain k j i where m: "m = (k, j, i)" by (cases m)
  obtain k' j' i' where n: "n = (k', j', i')" by (cases n)
  from assms have ri: "0 \<le> i" "i < iMax space" "0 \<le> i'" "i' < iMax space"
    and rj: "0 \<le> j" "j < jMax space" "0 \<le> j'" "j' < jMax space"
    and eq: "(k * jMax space + j) * iMax space + i = (k' * jMax space + j') * iMax space + i'"
    unfolding InDomain_def NodeIndex_def m n by simp_all
  have "((k * jMax space + j) * iMax space + i) mod iMax space = i"
    using ri by simp
  moreover have "((k' * jMax space + j') * iMax space + i') mod iMax space = i'"
    using ri by simp
  ultimately have i: "i = i'"
    using eq by simp
  with eq ri have eq2: "k * jMax space + j = k' * jMax space + j'"
    by simp
  have "(k * jMax space + j) mod jMax space = j"
    using rj by simp
  moreover have "(k' * jMax space + j') mod jMax space = j'"
    using rj by simp
  ultimately have j: "j = j'"
    using eq2 by simp
  with eq2 rj have "k = k'"
    by simp
  with i j show ?thesis
    unfolding m n by simp
qed

lemma NodeIndex_cong:
  "jMax a = jMax b \<Longrightarrow> iMax a = iMax b \<Longrightarrow> NodeIndex a = NodeIndex b"
  unfolding NodeIndex_def fun_eq_iff by simp

lemma InInterior_BoxNodes:
  "n \<in> set (BoxNodes (kSub part ! 12) (kSup part ! 12) (jSub part ! 12) (jSup part ! 12)
                      (iSub part ! 12) (iSup part ! 12)) \<longleftrightarrow> InInterior part n"
  unfolding InInterior_def by (cases n) (simp add: set_BoxNodes)

lemma InInterior_InDomain:
  "InteriorInsideDomain space part \<Longrightarrow> InInterior part n \<Longrightarrow> InDomain space n"
  unfolding InteriorInsideDomain_def InInterior_def InDomain_def by (cases n) auto

lemma SixNeighbours_InDomain:
  "InteriorInsideDomain space part \<Longrightarrow> InInterior part n \<Longrightarrow> m \<in> set (SixNeighbours n)
     \<Longrightarrow> InDomain space m"
  unfolding InteriorInsideDomain_def InInterior_def InDomain_def SixNeighbours_def
  by (cases n) auto

lemma interior_index_unique:
  assumes inside: "InteriorInsideDomain space part" and n: "InDomain space n"
    and m: "m \<in> set (BoxNodes (kSub part ! 12) (kSup part ! 12) (jSub part ! 12) (jSup part ! 12)
                              (iSub part ! 12) (iSup part ! 12))"
    and e: "NodeIndex space m = NodeIndex space n"
  shows "m = n"
proof -
  from m have "InInterior part m"
    by (simp add: InInterior_BoxNodes)
  then have "InDomain space m"
    by (rule InInterior_InDomain [OF inside])
  then show ?thesis
    using n e by (rule NodeIndex_inject)
qed

text \<open>
  A sweep that stores a value at the index of each node it visits, possibly
  skipping some nodes: an index that no visited node has keeps its content, and
  the index of a visited node that shares it with no other holds that node's
  value.
\<close>

lemma store_sweep_other:
  "a \<notin> idx ` set ns \<Longrightarrow> fold (\<lambda>n g. if c n then g(idx n := v n) else g) ns g a = g a"
  by (induction ns arbitrary: g) auto

lemma store_sweep_at:
  assumes "n \<in> set ns" and "\<And>m. m \<in> set ns \<Longrightarrow> idx m = idx n \<Longrightarrow> m = n"
  shows "fold (\<lambda>n g. if c n then g(idx n := v n) else g) ns g (idx n)
           = (if c n then v n else g (idx n))"
  using assms
proof (induction ns arbitrary: g)
  case Nil
  then show ?case by simp
next
  case (Cons m ms)
  let ?step = "\<lambda>n g. if c n then g(idx n := v n) else g"
  have unroll: "fold ?step (m # ms) g = fold ?step ms (?step m g)"
    by (simp only: fold_simps comp_apply)
  show ?case
  proof (cases "n \<in> set ms")
    case True
    have later: "fold ?step ms (?step m g) (idx n) = (if c n then v n else ?step m g (idx n))"
      using Cons.prems(2) by (intro Cons.IH [OF True]) simp
    have kept: "?step m g (idx n) = g (idx n)" if "\<not> c n"
    proof (cases "m = n")
      case True
      with that show ?thesis by simp
    next
      case False
      then have "idx m \<noteq> idx n"
        using Cons.prems(2) [of m] by auto
      then show ?thesis by simp
    qed
    show ?thesis
      unfolding unroll later using kept by (cases "c n") simp_all
  next
    case False
    with Cons.prems(1) have mn: "m = n"
      by simp
    have "idx n \<notin> idx ` set ms"
    proof
      assume "idx n \<in> idx ` set ms"
      then obtain m' where "m' \<in> set ms" and "idx m' = idx n"
        by auto
      with Cons.prems(2) have "m' = n"
        by simp
      with \<open>m' \<in> set ms\<close> False show False
        by simp
    qed
    then have "fold ?step ms (?step n g) (idx n) = ?step n g (idx n)"
      by (rule store_sweep_other)
    then show ?thesis
      unfolding unroll mn by simp
  qed
qed

lemma store_all_sweep_other:
  "a \<notin> idx ` set ns \<Longrightarrow> fold (\<lambda>n g. g(idx n := v n)) ns g a = g a"
  using store_sweep_other [where c = "\<lambda>n. True"] by simp

lemma store_all_sweep_at:
  assumes "n \<in> set ns" and "\<And>m. m \<in> set ns \<Longrightarrow> idx m = idx n \<Longrightarrow> m = n"
  shows "fold (\<lambda>n g. g(idx n := v n)) ns g (idx n) = v n"
  using store_sweep_at [where c = "\<lambda>n. True", OF assms] by simp

section \<open>The first pass: solid and fluid nodes\<close>

text \<open>The loop over the bodies at one node.\<close>

lemma body_loop_flag:
  "fst (fold (\<lambda>geoCount arrays.
            (let distance = D geoCount
             in if distance < (0::real)
                then ((fst arrays)(idx := - (1::int)), (snd arrays)(idx := geoCount))
                else arrays)) gs arrays)
     = (if filter (\<lambda>g. D g < 0) gs = [] then fst arrays else (fst arrays)(idx := - 1))"
  by (induction gs arbitrary: arrays rule: rev_induct) (auto simp: Let_def)

lemma body_loop_geoID:
  "snd (fold (\<lambda>geoCount arrays.
            (let distance = D geoCount
             in if distance < (0::real)
                then ((fst arrays)(idx := - (1::int)), (snd arrays)(idx := geoCount))
                else arrays)) gs arrays)
     = (if filter (\<lambda>g. D g < 0) gs = [] then snd arrays
        else (snd arrays)(idx := last (filter (\<lambda>g. D g < 0) gs)))"
  by (induction gs arbitrary: arrays rule: rev_induct) (auto simp: Let_def)

lemma SolidFlag_ContainingBodies:
  "SolidFlag space particle n = (if ContainingBodies space particle n = [] then 0 else - 1)"
  unfolding SolidFlag_def ContainingBodies_def
  by (cases n) (auto simp: filter_empty_conv)

lemma SolidFlag_values: "SolidFlag space particle n = - 1 \<or> SolidFlag space particle n = 0"
  unfolding SolidFlag_def by (cases n) simp

lemma SolidFlag_cong:
  "ng a = ng b \<Longrightarrow> dx a = dx b \<Longrightarrow> dy a = dy b \<Longrightarrow> dz a = dz b
     \<Longrightarrow> SolidFlag a particle = SolidFlag b particle"
  unfolding SolidFlag_def SolidDistance_def fun_eq_iff by simp

lemma LocateSolidNode_flag:
  "fst (LocateSolidNode space particle k j i arrays)
     = (fst arrays)(NodeIndex space (k, j, i) := SolidFlag space particle (k, j, i))"
  unfolding LocateSolidNode_def ForRange_def Let_def body_loop_flag [unfolded Let_def]
    SolidFlag_ContainingBodies
  by (simp add: NodeIndex_def ContainingBodies_def)

lemma LocateSolidNode_geoID:
  "snd (LocateSolidNode space particle k j i arrays)
     = (if ContainingBodies space particle (k, j, i) \<noteq> []
        then (snd arrays)(NodeIndex space (k, j, i) := last (ContainingBodies space particle (k, j, i)))
        else snd arrays)"
  unfolding LocateSolidNode_def ForRange_def Let_def body_loop_geoID [unfolded Let_def]
  by (simp add: NodeIndex_def ContainingBodies_def)

lemma LocateSolid_sweep_flag:
  "fst (fold (\<lambda>(k, j, i). LocateSolidNode space particle k j i) ns arrays)
     = fold (\<lambda>n g. g(NodeIndex space n := SolidFlag space particle n))
         ns (fst arrays)"
proof (induction ns arbitrary: arrays)
  case Nil
  show ?case by simp
next
  case (Cons n ns)
  obtain k j i where n: "n = (k, j, i)" by (cases n)
  show ?case
    by (simp add: n Cons.IH LocateSolidNode_flag)
qed

lemma LocateSolid_sweep_geoID:
  "snd (fold (\<lambda>(k, j, i). LocateSolidNode space particle k j i) ns arrays)
     = fold (\<lambda>n g. if ContainingBodies space particle n \<noteq> []
                    then g(NodeIndex space n := last (ContainingBodies space particle n)) else g)
         ns (snd arrays)"
proof (induction ns arbitrary: arrays)
  case Nil
  show ?case by simp
next
  case (Cons n ns)
  obtain k j i where n: "n = (k, j, i)" by (cases n)
  show ?case
    by (simp add: n Cons.IH LocateSolidNode_geoID)
qed

lemma LocateSolidGeometry_fields [simp]:
  "kMax (LocateSolidGeometry space particle part) = kMax space"
  "jMax (LocateSolidGeometry space particle part) = jMax space"
  "iMax (LocateSolidGeometry space particle part) = iMax space"
  unfolding LocateSolidGeometry_def Let_def by simp_all

lemma LocateSolidGeometry_flag:
  "ghostFlag (LocateSolidGeometry space particle part)
     = fold (\<lambda>n g. g(NodeIndex space n := SolidFlag space particle n))
         (BoxNodes (kSub part ! 12) (kSup part ! 12) (jSub part ! 12) (jSup part ! 12)
                   (iSub part ! 12) (iSup part ! 12))
         (ghostFlag space)"
  unfolding LocateSolidGeometry_def Let_def ForRange_triple
  by (simp add: LocateSolid_sweep_flag)

lemma LocateSolidGeometry_geoID:
  "geoID (LocateSolidGeometry space particle part)
     = fold (\<lambda>n g. if ContainingBodies space particle n \<noteq> []
                    then g(NodeIndex space n := last (ContainingBodies space particle n)) else g)
         (BoxNodes (kSub part ! 12) (kSup part ! 12) (jSub part ! 12) (jSup part ! 12)
                   (iSub part ! 12) (iSup part ! 12))
         (geoID space)"
  unfolding LocateSolidGeometry_def Let_def ForRange_triple
  by (simp add: LocateSolid_sweep_geoID)

text \<open>
  What \<open>LocateSolidGeometry\<close> leaves at an interior node: the flag is solid
  exactly when some body has negative \<open>distance\<close> there, and then \<open>geoID\<close> is the
  last such body in test order.  The coordinate in \<open>distance\<close> is
  \<open>(i - ng) * dx\<close>, without \<open>xMin\<close>.
\<close>

lemma LocateSolidGeometry_interior:
  assumes inside: "InteriorInsideDomain space part" and n: "InInterior part n"
  shows "ghostFlag (LocateSolidGeometry space particle part) (NodeIndex space n)
           = SolidFlag space particle n"
    and "geoID (LocateSolidGeometry space particle part) (NodeIndex space n)
           = (if ContainingBodies space particle n \<noteq> [] then last (ContainingBodies space particle n)
              else geoID space (NodeIndex space n))"
proof -
  let ?box = "BoxNodes (kSub part ! 12) (kSup part ! 12) (jSub part ! 12) (jSup part ! 12)
                       (iSub part ! 12) (iSup part ! 12)"
  have mem: "n \<in> set ?box"
    using n by (simp add: InInterior_BoxNodes)
  have d: "InDomain space n"
    using n by (rule InInterior_InDomain [OF inside])
  have inj: "\<And>m. m \<in> set ?box \<Longrightarrow> NodeIndex space m = NodeIndex space n \<Longrightarrow> m = n"
    by (rule interior_index_unique [OF inside d])
  show "ghostFlag (LocateSolidGeometry space particle part) (NodeIndex space n)
          = SolidFlag space particle n"
    unfolding LocateSolidGeometry_flag by (rule store_all_sweep_at [OF mem inj])
  show "geoID (LocateSolidGeometry space particle part) (NodeIndex space n)
          = (if ContainingBodies space particle n \<noteq> [] then last (ContainingBodies space particle n)
             else geoID space (NodeIndex space n))"
    unfolding LocateSolidGeometry_geoID by (rule store_sweep_at [OF mem inj])
qed

lemma LocateSolidGeometry_exterior:
  assumes inside: "InteriorInsideDomain space part" and d: "InDomain space n"
    and n: "\<not> InInterior part n"
  shows "ghostFlag (LocateSolidGeometry space particle part) (NodeIndex space n)
           = ghostFlag space (NodeIndex space n)"
proof -
  let ?box = "BoxNodes (kSub part ! 12) (kSup part ! 12) (jSub part ! 12) (jSup part ! 12)
                       (iSub part ! 12) (iSup part ! 12)"
  have out: "NodeIndex space n \<notin> NodeIndex space ` set ?box"
  proof
    assume "NodeIndex space n \<in> NodeIndex space ` set ?box"
    then obtain m where m: "m \<in> set ?box" and e: "NodeIndex space m = NodeIndex space n"
      by auto
    then have "m = n"
      by (rule interior_index_unique [OF inside d])
    with m n show False
      by (simp add: InInterior_BoxNodes)
  qed
  show ?thesis
    unfolding LocateSolidGeometry_flag by (rule store_all_sweep_other [OF out])
qed

text \<open>
  With the domain's lower corner at the origin the test of the source is the
  specification's test.
\<close>

lemma SolidDistance_at_origin:
  assumes "xMin space = 0" and "yMin space = 0" and "zMin space = 0"
  shows "SolidDistance space particle k j i geoCount
           = ClaimedDistance space particle (k, j, i) (nat geoCount)"
  unfolding SolidDistance_def ClaimedDistance_def PointSpace_def Let_def
  using assms by simp

text \<open>
  Claim C1 says that after \<open>LocateSolidGeometry\<close> an interior node is solid iff
  some body has \<open>d^2 < 0\<close> at the node's physical coordinate
  \<open>x_i = xMin + (i - ng) * dx\<close>.  The code leaves \<open>xMin\<close> out.  On the grid over
  \<open>[1,4] \<times> [1,3] \<times> [1,3]\<close> with a sphere of radius 1/2 centred on the physical
  position \<open>(2,2,2)\<close> of the interior node \<open>(2,2,2)\<close>, the node is inside the sphere
  by the claim's test, and the code marks it fluid.
\<close>

theorem LocateSolidGeometry_ignores_xMin:
  "InInterior ExamplePartition (2, 2, 2) \<and>
   ClaimedDistance ShiftedSpace ShiftedParticle (2, 2, 2) 0 < 0 \<and>
   ghostFlag (LocateSolidGeometry ShiftedSpace ShiftedParticle ExamplePartition)
     (NodeIndex ShiftedSpace (2, 2, 2)) = 0"
proof -
  have box: "kSub ExamplePartition ! 12 = 2" "kSup ExamplePartition ! 12 = 3"
    "jSub ExamplePartition ! 12 = 2" "jSup ExamplePartition ! 12 = 3"
    "iSub ExamplePartition ! 12 = 2" "iSup ExamplePartition ! 12 = 4"
    unfolding ExamplePartition_def by (simp_all add: nth_append)
  have inside: "InteriorInsideDomain ShiftedSpace ExamplePartition"
    unfolding InteriorInsideDomain_def box by (simp add: ShiftedSpace_def ExampleSpace_def)
  have i: "InInterior ExamplePartition (2, 2, 2)"
    unfolding InInterior_def box by simp
  have claimed: "ClaimedDistance ShiftedSpace ShiftedParticle (2, 2, 2) 0 < 0"
    unfolding ClaimedDistance_def PointSpace_def ShiftedSpace_def ExampleSpace_def ShiftedParticle_def
    by (simp add: power2_eq_square)
  have "\<not> SolidDistance ShiftedSpace ShiftedParticle 2 2 2 0 < 0"
    unfolding SolidDistance_def ShiftedSpace_def ExampleSpace_def ShiftedParticle_def
    by (simp add: Let_def power2_eq_square)
  moreover have "{0..<totalN ShiftedParticle} = {0::int}"
    by (auto simp: ShiftedParticle_def)
  ultimately have "SolidFlag ShiftedSpace ShiftedParticle (2, 2, 2) = 0"
    unfolding SolidFlag_def by simp
  then have "ghostFlag (LocateSolidGeometry ShiftedSpace ShiftedParticle ExamplePartition)
               (NodeIndex ShiftedSpace (2, 2, 2)) = 0"
    unfolding LocateSolidGeometry_interior(1) [OF inside i] .
  with i claimed show ?thesis
    by blast
qed

section \<open>The second pass: ghost nodes\<close>

lemma InitializeGhostFlag_fields [simp]:
  "kMax (InitializeGhostFlag space) = kMax space"
  "jMax (InitializeGhostFlag space) = jMax space"
  "iMax (InitializeGhostFlag space) = iMax space"
  "ng (InitializeGhostFlag space) = ng space"
  "dx (InitializeGhostFlag space) = dx space"
  "dy (InitializeGhostFlag space) = dy space"
  "dz (InitializeGhostFlag space) = dz space"
  "geoID (InitializeGhostFlag space) = geoID space"
  unfolding InitializeGhostFlag_def by simp_all

lemma InitializeGhostFlag_domain:
  assumes "InDomain space n"
  shows "ghostFlag (InitializeGhostFlag space) (NodeIndex space n) = 2"
proof -
  obtain k j i where n: "n = (k, j, i)" by (cases n)
  let ?ns = "BoxNodes 0 (kMax space) 0 (jMax space) 0 (iMax space)"
  have sweep: "ghostFlag (InitializeGhostFlag space)
          = fold (\<lambda>n g. g(NodeIndex space n := (\<lambda>m. 2) n)) ?ns (ghostFlag space)"
    unfolding InitializeGhostFlag_def Let_def ForRange_triple NodeIndex_def
    by (simp add: case_prod_beta')
  have mem: "n \<in> set ?ns"
    using assms unfolding n InDomain_def by (simp add: set_BoxNodes)
  have inj: "\<And>m. m \<in> set ?ns \<Longrightarrow> NodeIndex space m = NodeIndex space n \<Longrightarrow> m = n"
  proof -
    fix m assume m: "m \<in> set ?ns" and e: "NodeIndex space m = NodeIndex space n"
    obtain k' j' i' where m': "m = (k', j', i')" by (cases m)
    from m have "InDomain space m"
      unfolding InDomain_def m' by (simp add: set_BoxNodes)
    then show "m = n"
      using assms e by (rule NodeIndex_inject)
  qed
  show ?thesis
    unfolding sweep by (rule store_all_sweep_at [OF mem inj])
qed

text \<open>The flags after the first pass, started from the all-2 array.\<close>

lemma InteriorInsideDomain_Initialize:
  "InteriorInsideDomain (InitializeGhostFlag space) part = InteriorInsideDomain space part"
  unfolding InteriorInsideDomain_def by simp

lemma InDomain_Initialize: "InDomain (InitializeGhostFlag space) n = InDomain space n"
  unfolding InDomain_def by simp

lemma first_pass_interior:
  assumes inside: "InteriorInsideDomain space part" and n: "InInterior part n"
  shows "ghostFlag (LocateSolidGeometry (InitializeGhostFlag space) particle part) (NodeIndex space n)
           = SolidFlag space particle n"
proof -
  have idx: "NodeIndex (InitializeGhostFlag space) = NodeIndex space"
    by (rule NodeIndex_cong) simp_all
  have sf: "SolidFlag (InitializeGhostFlag space) particle = SolidFlag space particle"
    by (rule SolidFlag_cong) simp_all
  from inside have "InteriorInsideDomain (InitializeGhostFlag space) part"
    by (simp add: InteriorInsideDomain_Initialize)
  from LocateSolidGeometry_interior(1) [OF this n, of particle] show ?thesis
    unfolding idx sf .
qed

lemma first_pass_exterior:
  assumes inside: "InteriorInsideDomain space part" and d: "InDomain space n"
    and n: "\<not> InInterior part n"
  shows "ghostFlag (LocateSolidGeometry (InitializeGhostFlag space) particle part) (NodeIndex space n) = 2"
proof -
  have idx: "NodeIndex (InitializeGhostFlag space) = NodeIndex space"
    by (rule NodeIndex_cong) simp_all
  from inside have i': "InteriorInsideDomain (InitializeGhostFlag space) part"
    by (simp add: InteriorInsideDomain_Initialize)
  from d have d': "InDomain (InitializeGhostFlag space) n"
    by (simp add: InDomain_Initialize)
  from LocateSolidGeometry_exterior [OF i' d' n, of particle] show ?thesis
    unfolding idx InitializeGhostFlag_domain [OF d] .
qed

text \<open>
  The body of the second pass, in terms of the node's index and the product of
  its neighbours' flags.
\<close>

lemma IdentifyGhostNode_eq:
  "IdentifyGhostNode space k j i flags =
     (if flags (NodeIndex space (k, j, i)) = - 1 \<and> NeighbourProduct space flags (k, j, i) = 0
      then flags(NodeIndex space (k, j, i) := 1) else flags)"
proof -
  have W: "(k * jMax space + j) * iMax space + i - 1 = (k * jMax space + j) * iMax space + (i - 1)"
    by simp
  have E: "(k * jMax space + j) * iMax space + i + 1 = (k * jMax space + j) * iMax space + (i + 1)"
    by simp
  have S: "(k * jMax space + j - 1) * iMax space + i = (k * jMax space + (j - 1)) * iMax space + i"
    by simp
  have N: "(k * jMax space + j + 1) * iMax space + i = (k * jMax space + (j + 1)) * iMax space + i"
    by simp
  show ?thesis
    unfolding IdentifyGhostNode_def NeighbourProduct_def NodeIndex_def SixNeighbours_def Let_def W E S N
    by (simp add: mult.assoc)
qed

lemma NeighbourProduct_zero_iff:
  "NeighbourProduct space flags n = 0 \<longleftrightarrow> (\<exists>m \<in> set (SixNeighbours n). flags (NodeIndex space m) = 0)"
  unfolding NeighbourProduct_def by (auto simp: prod_list_zero_iff)

text \<open>
  A step of the sweep turns a \<open>-1\<close> into a \<open>1\<close> and nothing else, so the set of
  zero flags, and with it every neighbour product's being zero, is the same
  at every moment of the sweep.
\<close>

lemma IdentifyGhostNode_zero:
  "IdentifyGhostNode space k j i flags a = 0 \<longleftrightarrow> flags a = 0"
  unfolding IdentifyGhostNode_eq by simp

lemma IdentifyGhostNode_product:
  "NeighbourProduct space (IdentifyGhostNode space k j i flags) n = 0
     \<longleftrightarrow> NeighbourProduct space flags n = 0"
  unfolding NeighbourProduct_zero_iff IdentifyGhostNode_zero ..

lemma NeighbourProduct_cong:
  "jMax a = jMax b \<Longrightarrow> iMax a = iMax b \<Longrightarrow> NeighbourProduct a = NeighbourProduct b"
  unfolding NeighbourProduct_def fun_eq_iff by (simp add: NodeIndex_cong [of a b])

lemma IdentifyGhostNode_cong:
  assumes "jMax a = jMax b" and "iMax a = iMax b"
  shows "IdentifyGhostNode a k j i flags = IdentifyGhostNode b k j i flags"
  unfolding IdentifyGhostNode_eq NodeIndex_cong [OF assms] NeighbourProduct_cong [OF assms] ..

lemma ghost_sweep:
  "fold (\<lambda>(k, j, i). IdentifyGhostNode space k j i) ns flags a =
     (if flags a = - 1 \<and> (\<exists>n \<in> set ns. NodeIndex space n = a \<and> NeighbourProduct space flags n = 0)
      then 1 else flags a)"
proof (induction ns arbitrary: flags)
  case Nil
  show ?case by simp
next
  case (Cons n ns)
  obtain k j i where n: "n = (k, j, i)" by (cases n)
  let ?flags' = "IdentifyGhostNode space k j i flags"
  have "fold (\<lambda>(k, j, i). IdentifyGhostNode space k j i) (n # ns) flags a
          = fold (\<lambda>(k, j, i). IdentifyGhostNode space k j i) ns ?flags' a"
    by (simp add: n)
  also have "\<dots> = (if ?flags' a = - 1 \<and> (\<exists>m \<in> set ns. NodeIndex space m = a \<and> NeighbourProduct space flags m = 0)
                    then 1 else ?flags' a)"
    unfolding Cons.IH IdentifyGhostNode_product ..
  also have "\<dots> = (if flags a = - 1 \<and> (\<exists>m \<in> set (n # ns). NodeIndex space m = a \<and> NeighbourProduct space flags m = 0)
                    then 1 else flags a)"
  proof (cases "flags (NodeIndex space n) = - 1 \<and> NeighbourProduct space flags n = 0")
    case True
    then have f: "?flags' = flags(NodeIndex space n := 1)"
      unfolding IdentifyGhostNode_eq n by simp
    show ?thesis
    proof (cases "a = NodeIndex space n")
      case True
      with \<open>flags (NodeIndex space n) = - 1 \<and> NeighbourProduct space flags n = 0\<close>
      show ?thesis unfolding f by auto
    next
      case False
      then show ?thesis unfolding f by auto
    qed
  next
    case False
    then have f: "?flags' = flags"
      unfolding IdentifyGhostNode_eq n by auto
    from False show ?thesis unfolding f by auto
  qed
  finally show ?case .
qed

lemma IdentifyGhostCells_flag:
  "ghostFlag (IdentifyGhostCells space part)
     = fold (\<lambda>(k, j, i). IdentifyGhostNode space k j i)
         (BoxNodes (kSub part ! 12) (kSup part ! 12) (jSub part ! 12) (jSup part ! 12)
                   (iSub part ! 12) (iSup part ! 12))
         (ghostFlag space)"
  unfolding IdentifyGhostCells_def ForRange_triple by simp

text \<open>
  Claim C2.  Run the classifier from the all-2 array on a grid whose interior
  box lies strictly inside the padded domain, and take any node of the
  domain.  After the second pass the node is ghost (1) iff it is an interior
  node that was solid (-1) after the first pass and the product of its six
  neighbours' flags after the first pass is zero; for an interior node that
  product is zero iff one of the six neighbours is an interior node with flag
  0; a solid node with no such neighbour keeps -1; and a node that was not
  solid after the first pass (fluid or exterior) keeps its flag.
\<close>

theorem ghost_cells_characterised:
  assumes inside: "InteriorInsideDomain space part" and d: "InDomain space n"
  shows
    "(let flags1 = ghostFlag (LocateSolidGeometry (InitializeGhostFlag space) particle part);
          flags2 = ghostFlag (InitializeDomainGeometryGCIBM space particle part);
          a = NodeIndex space n;
          fluidNeighbour = (\<exists>m \<in> set (SixNeighbours n). InInterior part m \<and> flags1 (NodeIndex space m) = 0)
      in (flags2 a = 1 \<longleftrightarrow> InInterior part n \<and> flags1 a = - 1 \<and> NeighbourProduct space flags1 n = 0)
       \<and> (InInterior part n \<longrightarrow> (NeighbourProduct space flags1 n = 0 \<longleftrightarrow> fluidNeighbour))
       \<and> (flags1 a = - 1 \<and> \<not> fluidNeighbour \<longrightarrow> flags2 a = - 1)
       \<and> (flags1 a \<noteq> - 1 \<longrightarrow> flags2 a = flags1 a))"
proof -
  let ?s1 = "LocateSolidGeometry (InitializeGhostFlag space) particle part"
  let ?g1 = "ghostFlag ?s1"
  let ?g2 = "ghostFlag (InitializeDomainGeometryGCIBM space particle part)"
  let ?a = "NodeIndex space n"
  let ?box = "BoxNodes (kSub part ! 12) (kSup part ! 12) (jSub part ! 12) (jSup part ! 12)
                       (iSub part ! 12) (iSup part ! 12)"
  let ?fluid = "\<exists>m \<in> set (SixNeighbours n). InInterior part m \<and> ?g1 (NodeIndex space m) = 0"
  have step: "(\<lambda>(k, j, i). IdentifyGhostNode ?s1 k j i) = (\<lambda>(k, j, i). IdentifyGhostNode space k j i)"
    by (simp add: fun_eq_iff IdentifyGhostNode_cong [of ?s1 space])
  have g2: "?g2 ?a = (if ?g1 ?a = - 1 \<and> (\<exists>m \<in> set ?box. NodeIndex space m = ?a
                        \<and> NeighbourProduct space ?g1 m = 0) then 1 else ?g1 ?a)"
    unfolding InitializeDomainGeometryGCIBM_def ComputeDomainGeometryGCIBM_def
      IdentifyGhostCells_flag step ghost_sweep ..
  have visit: "(\<exists>m \<in> set ?box. NodeIndex space m = ?a \<and> NeighbourProduct space ?g1 m = 0)
                 \<longleftrightarrow> InInterior part n \<and> NeighbourProduct space ?g1 n = 0"
  proof
    assume "\<exists>m \<in> set ?box. NodeIndex space m = ?a \<and> NeighbourProduct space ?g1 m = 0"
    then obtain m where m: "m \<in> set ?box" and e: "NodeIndex space m = ?a"
      and z: "NeighbourProduct space ?g1 m = 0"
      by auto
    from m e have "m = n"
      by (rule interior_index_unique [OF inside d])
    with m z show "InInterior part n \<and> NeighbourProduct space ?g1 n = 0"
      by (simp add: InInterior_BoxNodes)
  next
    assume "InInterior part n \<and> NeighbourProduct space ?g1 n = 0"
    then show "\<exists>m \<in> set ?box. NodeIndex space m = ?a \<and> NeighbourProduct space ?g1 m = 0"
      by (auto simp: InInterior_BoxNodes)
  qed
  have not1: "?g1 ?a \<noteq> 1"
  proof (cases "InInterior part n")
    case True
    then have "?g1 ?a = SolidFlag space particle n"
      by (rule first_pass_interior [OF inside])
    then show ?thesis
      using SolidFlag_values [of space particle n] by auto
  next
    case False
    then have "?g1 ?a = 2"
      by (rule first_pass_exterior [OF inside d])
    then show ?thesis by simp
  qed
  have solid_interior: "?g1 ?a = - 1 \<Longrightarrow> InInterior part n"
  proof (rule ccontr)
    assume s: "?g1 ?a = - 1" and "\<not> InInterior part n"
    then have "?g1 ?a = 2"
      by (intro first_pass_exterior [OF inside d])
    with s show False by simp
  qed
  have product: "NeighbourProduct space ?g1 n = 0 \<longleftrightarrow> ?fluid" if i: "InInterior part n"
  proof
    assume "NeighbourProduct space ?g1 n = 0"
    then obtain m where m: "m \<in> set (SixNeighbours n)" and z: "?g1 (NodeIndex space m) = 0"
      unfolding NeighbourProduct_zero_iff by auto
    have dm: "InDomain space m"
      by (rule SixNeighbours_InDomain [OF inside i m])
    have "InInterior part m"
    proof (rule ccontr)
      assume "\<not> InInterior part m"
      then have "?g1 (NodeIndex space m) = 2"
        by (rule first_pass_exterior [OF inside dm])
      with z show False by simp
    qed
    with m z show ?fluid by auto
  next
    assume ?fluid
    then show "NeighbourProduct space ?g1 n = 0"
      unfolding NeighbourProduct_zero_iff by auto
  qed
  have c1: "?g2 ?a = 1 \<longleftrightarrow> InInterior part n \<and> ?g1 ?a = - 1 \<and> NeighbourProduct space ?g1 n = 0"
    unfolding g2 visit using not1 by auto
  have c3: "?g1 ?a = - 1 \<and> \<not> ?fluid \<longrightarrow> ?g2 ?a = - 1"
    unfolding g2 visit using solid_interior product by auto
  have c4: "?g1 ?a \<noteq> - 1 \<longrightarrow> ?g2 ?a = ?g1 ?a"
    unfolding g2 by simp
  from c1 product c3 c4 show ?thesis
    unfolding Let_def by blast
qed

lemma Example_solid: "SolidFlag ExampleSpace ExampleParticle (2, 2, 2) = - 1"
proof -
  have "SolidDistance ExampleSpace ExampleParticle 2 2 2 0 < 0"
    unfolding SolidDistance_def ExampleSpace_def ExampleParticle_def
    by (simp add: Let_def)
  moreover have "(0::int) \<in> {0..<totalN ExampleParticle}"
    by (simp add: ExampleParticle_def)
  ultimately show ?thesis
    unfolding SolidFlag_def by auto
qed

lemma Example_fluid: "SolidFlag ExampleSpace ExampleParticle (2, 2, 3) = 0"
proof -
  have "\<not> SolidDistance ExampleSpace ExampleParticle 2 2 3 0 < 0"
    unfolding SolidDistance_def ExampleSpace_def ExampleParticle_def
    by (simp add: Let_def power2_eq_square)
  moreover have "{0..<totalN ExampleParticle} = {0::int}"
    by (auto simp: ExampleParticle_def)
  ultimately show ?thesis
    unfolding SolidFlag_def by simp
qed

theorem ghost_cells_characterised_witness:
  "InteriorInsideDomain ExampleSpace ExamplePartition \<and> InDomain ExampleSpace (2, 2, 2) \<and>
   ghostFlag (LocateSolidGeometry (InitializeGhostFlag ExampleSpace) ExampleParticle ExamplePartition)
     (NodeIndex ExampleSpace (2, 2, 2)) = - 1 \<and>
   ghostFlag (LocateSolidGeometry (InitializeGhostFlag ExampleSpace) ExampleParticle ExamplePartition)
     (NodeIndex ExampleSpace (2, 2, 3)) = 0 \<and>
   ghostFlag (InitializeDomainGeometryGCIBM ExampleSpace ExampleParticle ExamplePartition)
     (NodeIndex ExampleSpace (2, 2, 2)) = 1"
proof -
  let ?g1 = "ghostFlag (LocateSolidGeometry (InitializeGhostFlag ExampleSpace) ExampleParticle ExamplePartition)"
  have box: "kSub ExamplePartition ! 12 = 2" "kSup ExamplePartition ! 12 = 3"
    "jSub ExamplePartition ! 12 = 2" "jSup ExamplePartition ! 12 = 3"
    "iSub ExamplePartition ! 12 = 2" "iSup ExamplePartition ! 12 = 4"
    unfolding ExamplePartition_def by (simp_all add: nth_append)
  have inside: "InteriorInsideDomain ExampleSpace ExamplePartition"
    unfolding InteriorInsideDomain_def box by (simp add: ExampleSpace_def)
  have d: "InDomain ExampleSpace (2, 2, 2)"
    unfolding InDomain_def by (simp add: ExampleSpace_def)
  have i1: "InInterior ExamplePartition (2, 2, 2)" and i2: "InInterior ExamplePartition (2, 2, 3)"
    unfolding InInterior_def box by simp_all
  have solid: "?g1 (NodeIndex ExampleSpace (2, 2, 2)) = - 1"
    unfolding first_pass_interior [OF inside i1] by (rule Example_solid)
  have fluid: "?g1 (NodeIndex ExampleSpace (2, 2, 3)) = 0"
    unfolding first_pass_interior [OF inside i2] by (rule Example_fluid)
  have "(2, 2, 3) \<in> set (SixNeighbours (2, 2, 2))"
    unfolding SixNeighbours_def by simp
  with fluid have prod: "NeighbourProduct ExampleSpace ?g1 (2, 2, 2) = 0"
    unfolding NeighbourProduct_zero_iff by blast
  from ghost_cells_characterised [OF inside d, of ExampleParticle]
  have "ghostFlag (InitializeDomainGeometryGCIBM ExampleSpace ExampleParticle ExamplePartition)
          (NodeIndex ExampleSpace (2, 2, 2)) = 1
        \<longleftrightarrow> InInterior ExamplePartition (2, 2, 2) \<and> ?g1 (NodeIndex ExampleSpace (2, 2, 2)) = - 1
            \<and> NeighbourProduct ExampleSpace ?g1 (2, 2, 2) = 0"
    unfolding Let_def by blast
  with i1 solid prod inside d fluid show ?thesis
    by blast
qed

section \<open>The iblank entries of the geometry file\<close>

lemma append_sweep:
  "fold (\<lambda>(k, j, i) file. file @ [g k j i]) ns out = out @ map (\<lambda>(k, j, i). g k j i) ns"
  by (induction ns arbitrary: out) (auto simp: case_prod_beta')

lemma ForRange_triple_append:
  "ForRange kLo kHi (\<lambda>k. ForRange jLo jHi (\<lambda>j. ForRange iLo iHi (\<lambda>i file. file @ [g k j i]))) out
     = out @ map (\<lambda>(k, j, i). g k j i) (BoxNodes kLo kHi jLo jHi iLo iHi)"
  unfolding ForRange_triple append_sweep ..

text \<open>The two-sided test of the source is the magnitude test of the specification.\<close>

lemma BlankID_IblankRule: "BlankID offset flag = IblankRule offset flag"
  unfolding BlankID_def IblankRule_def by auto

lemma WriteEnsightGeometryPart_appends:
  "WriteEnsightGeometryPart space part (nodeFlagOffset space) partCount out
     = out @ PartRecords space part partCount"
  unfolding WriteEnsightGeometryPart_def PartRecords_def PartNodes_def Let_def
    ForRange_triple_append BlankID_IblankRule
  by simp

lemma parts_loop:
  "fold (WriteEnsightGeometryPart space part (nodeFlagOffset space)) ps out
     = out @ concat (map (PartRecords space part) ps)"
  by (induction ps arbitrary: out) (simp_all add: WriteEnsightGeometryPart_appends)

lemma WriteEnsightGeometryFile_content:
  "WriteEnsightGeometryFile True space part =
     Inr ([EnsightString ''C Binary'', EnsightString ''Ensight Geometry File'',
           EnsightString ''Written by ArtraCFD'', EnsightString ''node id off'',
           EnsightString ''element id off'']
          @ concat (map (PartRecords space part) [0..subN part - 1]))"
  unfolding WriteEnsightGeometryFile_def Let_def ForRange_def parts_loop by simp

text \<open>
  Claim C8, amended.  The geometry file, once open, is its five header strings
  followed, part by part, by \<open>PartRecords\<close>: so for every node of a written part the
  iblank entry is \<open>IblankRule offset flag\<close> with \<open>offset = nodeFlagOffset\<close> and the
  node's flag, which is 1 iff the magnitude of the flag is strictly less than
  the offset, and 0 otherwise.  For the flags fluid 0, ghost 1, solid -1 and
  exterior 2: a ghost node and an interior solid node get the same iblank
  whatever the offset, and with offset 2 the iblank is 1 on fluid, ghost and
  interior solid nodes and 0 on exterior nodes.
\<close>

theorem geometry_file_iblank:
  "WriteEnsightGeometryFile True space part =
     Inr ([EnsightString ''C Binary'', EnsightString ''Ensight Geometry File'',
           EnsightString ''Written by ArtraCFD'', EnsightString ''node id off'',
           EnsightString ''element id off'']
          @ concat (map (PartRecords space part) [0..subN part - 1]))
   \<and> (IblankRule offset flag = 1 \<longleftrightarrow> \<bar>flag\<bar> < offset)
   \<and> (IblankRule offset flag = 0 \<longleftrightarrow> \<not> \<bar>flag\<bar> < offset)
   \<and> IblankRule offset 1 = IblankRule offset (- 1)
   \<and> IblankRule 2 0 = 1 \<and> IblankRule 2 1 = 1 \<and> IblankRule 2 (- 1) = 1 \<and> IblankRule 2 2 = 0"
proof -
  have "IblankRule offset flag = 1 \<longleftrightarrow> \<bar>flag\<bar> < offset"
    and "IblankRule offset flag = 0 \<longleftrightarrow> \<not> \<bar>flag\<bar> < offset"
    and "IblankRule offset 1 = IblankRule offset (- 1)"
    and "IblankRule 2 0 = 1" and "IblankRule 2 1 = 1" and "IblankRule 2 (- 1) = 1"
    and "IblankRule 2 2 = 0"
    unfolding IblankRule_def by simp_all
  with WriteEnsightGeometryFile_content [of space part] show ?thesis
    by blast
qed

text \<open>
  The claim as stated asks for an offset that gives iblank 1 on fluid and ghost
  nodes and 0 on interior solid and exterior nodes.  On a part of four nodes
  with flags 0, 1, -1, 2 the file has 24 records before the iblank block, and
  no offset makes that block \<open>1, 1, 0, 0\<close>.
\<close>

lemma ExportNodes: "PartNodes ExportPartition 0 = [(0, 0, 0), (0, 0, 1), (0, 0, 2), (0, 0, 3)]"
  unfolding PartNodes_def BoxNodes_def ExportPartition_def Let_def
  by (simp add: upto_rec1)

lemma Export_fields:
  "[0..subN ExportPartition - 1] = [0]"
  "name ExportPartition ! 0 = ''domain''"
  "kSub ExportPartition ! 0 = 0" "kSup ExportPartition ! 0 = 1"
  "jSub ExportPartition ! 0 = 0" "jSup ExportPartition ! 0 = 1"
  "iSub ExportPartition ! 0 = 0" "iSup ExportPartition ! 0 = 4"
  unfolding ExportPartition_def by (simp_all add: upto_rec1)

lemma Export_flags:
  "IndexMath 0 0 i (ExportSpace\<lparr>nodeFlagOffset := offset\<rparr>) = i"
  "nodeFlag ExportSpace 0 = 0" "nodeFlag ExportSpace 1 = 1"
  "nodeFlag ExportSpace 2 = - 1" "nodeFlag ExportSpace 3 = 2"
  unfolding ExportSpace_def IndexMath_def by simp_all

lemma Export_iblank:
  "map_sum id (drop 24)
     (WriteEnsightGeometryFile True (ExportSpace\<lparr>nodeFlagOffset := offset\<rparr>) ExportPartition)
     = Inr (map EnsightInt
         [IblankRule offset 0, IblankRule offset 1, IblankRule offset (- 1), IblankRule offset 2])"
  unfolding WriteEnsightGeometryFile_content Export_fields
  by (simp add: PartRecords_def ExportNodes Export_fields Export_flags Let_def)

theorem no_offset_separates_ghost_from_solid:
  "\<not> (\<exists>offset. map_sum id (drop 24)
           (WriteEnsightGeometryFile True (ExportSpace\<lparr>nodeFlagOffset := offset\<rparr>) ExportPartition)
         = Inr (map EnsightInt [1, 1, 0, 0]))"
  unfolding Export_iblank IblankRule_def by auto

end
